theory Spec2Isabelle
  imports Complex_Main "HOL-Library.Char_ord" "HOL-Library.List_Lexorder"
begin

section \<open>Tensors, results and layers\<close>

text \<open>
  The script \<^verbatim>\<open>galaxy.py\<close> computes on float32 tensors. A finite float is
  idealised as the real number it stands for; rounding, overflow to infinity and NaN
  operands are outside the model, except where a rounded value decides an integer: the
  number of spiral arms is computed with the rounding of the floating-point formats. The
  one NaN the script can produce from finite data, the mean of an empty tensor (0/0), is
  kept as the value \<open>NaN\<close>.

  A two-dimensional tensor (batch times features) is the list of its rows. An exception
  raised by the script or by a library call is the \<open>Inl\<close> branch of a result.
\<close>

datatype error = RuntimeError | IndexError | ValueError | KeyError
  | FileNotFoundError | UnidentifiedImageError

datatype pyfloat = Fin real | NaN

type_synonym vec = "real list"
type_synonym mat = "real list list"

datatype tensor = T0 real | T1 vec | T2 mat

definition bind_result :: "error + 'a \<Rightarrow> ('a \<Rightarrow> error + 'b) \<Rightarrow> error + 'b" where
  "bind_result r f = (case r of Inl e \<Rightarrow> Inl e | Inr y \<Rightarrow> f y)"

text \<open>\<^verbatim>\<open>torch.mean\<close> and \<^verbatim>\<open>np.mean\<close> over the elements of a tensor.\<close>

definition mean :: "real list \<Rightarrow> pyfloat" where
  "mean xs = (if xs = [] then NaN else Fin (sum_list xs / real (length xs)))"

text \<open>\<^verbatim>\<open>np.mean\<close> over a Python list of floats, any of which may be NaN.\<close>

fun fin_values :: "pyfloat list \<Rightarrow> real list option" where
  "fin_values [] = Some []"
| "fin_values (NaN # fs) = None"
| "fin_values (Fin r # fs) = map_option ((#) r) (fin_values fs)"

definition np_mean :: "pyfloat list \<Rightarrow> pyfloat" where
  "np_mean fs = (case fin_values fs of None \<Rightarrow> NaN | Some rs \<Rightarrow> mean rs)"

fun np_sqrt :: "pyfloat \<Rightarrow> pyfloat" where
  "np_sqrt (Fin r) = (if r < 0 then NaN else Fin (sqrt r))"
| "np_sqrt NaN = NaN"

fun scale :: "real \<Rightarrow> pyfloat \<Rightarrow> pyfloat" where
  "scale w (Fin r) = Fin (w * r)"
| "scale w NaN = NaN"

text \<open>
  \<^verbatim>\<open>torch.linspace(a, b, steps)\<close>: \<open>steps\<close> equally spaced values from \<open>a\<close> to
  \<open>b\<close> inclusive; a single step gives \<open>a\<close>, a negative count raises.
\<close>

definition linspace_values :: "real \<Rightarrow> real \<Rightarrow> nat \<Rightarrow> vec" where
  "linspace_values a b n =
     (if n = 1 then [a] else map (\<lambda>i. a + real i * ((b - a) / real (n - 1))) [0..<n])"

definition linspace :: "real \<Rightarrow> real \<Rightarrow> int \<Rightarrow> error + vec" where
  "linspace a b steps =
     (if steps < 0 then Inl RuntimeError else Inr (linspace_values a b (nat steps)))"

text \<open>\<^verbatim>\<open>t.unsqueeze(1)\<close> on a one-dimensional tensor: a column.\<close>

definition unsqueeze1 :: "vec \<Rightarrow> mat" where
  "unsqueeze1 ts = map (\<lambda>v. [v]) ts"

text \<open>
  \<^verbatim>\<open>t.expand(n, 1)\<close> on a tensor holding one element (zero-dimensional, or
  one-dimensional of size 1): \<open>n\<close> rows holding that element. Any other
  one-dimensional size does not expand to \<open>(n, 1)\<close>.
\<close>

fun expand :: "tensor \<Rightarrow> nat \<Rightarrow> error + tensor" where
  "expand (T0 v) n = Inr (T2 (replicate n [v]))"
| "expand (T1 [v]) n = Inr (T2 (replicate n [v]))"
| "expand t n = Inl RuntimeError"

text \<open>
  \<^verbatim>\<open>torch.cat([x, t], dim=1)\<close>: both operands two-dimensional with the same number
  of rows, otherwise a RuntimeError.
\<close>

fun cat1 :: "mat \<Rightarrow> tensor \<Rightarrow> error + mat" where
  "cat1 x (T2 t) = (if length x = length t then Inr (map2 (@) x t) else Inl RuntimeError)"
| "cat1 x t = Inl RuntimeError"

subsection \<open>\<^verbatim>\<open>nn.Linear\<close> and the activations\<close>

record linear =
  in_features :: nat
  out_features :: nat
  weight :: mat
  bias :: vec

definition dot :: "vec \<Rightarrow> vec \<Rightarrow> real" where
  "dot u v = sum_list (map2 (*) u v)"

text \<open>\<open>rect n m X\<close>: \<open>X\<close> is a tensor of shape \<open>(n, m)\<close>.\<close>

definition rect :: "nat \<Rightarrow> nat \<Rightarrow> mat \<Rightarrow> bool" where
  "rect n m X \<longleftrightarrow> length X = n \<and> list_all (\<lambda>r. length r = m) X"

text \<open>
  \<open>shape_linear i out l\<close>: the layer was built by \<^verbatim>\<open>nn.Linear(i, out)\<close>, so its
  weight has shape \<open>(out, i)\<close> and its bias has \<open>out\<close> entries.
\<close>

definition shape_linear :: "nat \<Rightarrow> nat \<Rightarrow> linear \<Rightarrow> bool" where
  "shape_linear i out l \<longleftrightarrow>
     in_features l = i \<and> out_features l = out \<and> rect out i (weight l) \<and> length (bias l) = out"

text \<open>Applying the layer to a batch: each row times the transposed weight, plus the
  bias; a row of the wrong length raises.\<close>

definition Linear :: "linear \<Rightarrow> mat \<Rightarrow> error + mat" where
  "Linear l X =
     (if list_all (\<lambda>x. length x = in_features l) X
      then Inr (map (\<lambda>x. map2 (\<lambda>w b. dot w x + b) (weight l) (bias l)) X)
      else Inl RuntimeError)"

definition ReLU :: "mat \<Rightarrow> mat" where
  "ReLU X = map (map (\<lambda>v. max 0 v)) X"

definition Tanh :: "mat \<Rightarrow> mat" where
  "Tanh X = map (map tanh) X"

definition sigmoid :: "real \<Rightarrow> real" where
  "sigmoid v = 1 / (1 + exp (- v))"

definition Sigmoid :: "mat \<Rightarrow> mat" where
  "Sigmoid X = map (map sigmoid) X"

section \<open>GalaxyPINN\<close>

record pinn =
  net0 :: linear
  net2 :: linear
  net4 :: linear

text \<open>\<^verbatim>\<open>GalaxyPINN(input_dim, hidden_dim)\<close>: the shapes \<^verbatim>\<open>__init__\<close> builds.\<close>

definition shape_pinn :: "nat \<Rightarrow> nat \<Rightarrow> pinn \<Rightarrow> bool" where
  "shape_pinn input_dim hidden_dim p \<longleftrightarrow>
     shape_linear (input_dim + 1) hidden_dim (net0 p) \<and>
     shape_linear hidden_dim hidden_dim (net2 p) \<and>
     shape_linear hidden_dim input_dim (net4 p)"

definition net :: "pinn \<Rightarrow> mat \<Rightarrow> error + mat" where
  "net p x_t =
     bind_result (Linear (net0 p) x_t) (\<lambda>h0.
     bind_result (Linear (net2 p) (Tanh h0)) (\<lambda>h1.
     Linear (net4 p) (Tanh h1)))"

text \<open>
  \<^verbatim>\<open>GalaxyPINN.forward(x, t)\<close>: a one-dimensional \<open>t\<close> is unsqueezed to a column;
  \<open>t\<close> is then concatenated to \<open>x\<close> as one more column and the network applied.
\<close>

fun tdim :: "tensor \<Rightarrow> nat" where
  "tdim (T0 v) = 0"
| "tdim (T1 ts) = 1"
| "tdim (T2 tm) = 2"

text \<open>\<^verbatim>\<open>t.unsqueeze(1)\<close>; the script calls it on one-dimensional tensors only.\<close>

fun unsqueeze :: "tensor \<Rightarrow> tensor" where
  "unsqueeze (T1 ts) = T2 (unsqueeze1 ts)"
| "unsqueeze t = t"

definition GalaxyPINN_forward :: "pinn \<Rightarrow> mat \<Rightarrow> tensor \<Rightarrow> error + mat" where
  "GalaxyPINN_forward p x t =
     (let t' = (if tdim t = 1 then unsqueeze t else t) in
      bind_result (cat1 x t') (\<lambda>x_t. net p x_t))"

section \<open>GalaxyVAE\<close>

record vae =
  enc0 :: linear
  enc2 :: linear
  fc_mu :: linear
  fc_logvar :: linear
  dec0 :: linear
  dec2 :: linear
  dec4 :: linear

text \<open>\<^verbatim>\<open>GalaxyVAE(input_dim, latent_dim)\<close>: the shapes \<^verbatim>\<open>__init__\<close> builds.\<close>

definition shape_vae :: "nat \<Rightarrow> nat \<Rightarrow> vae \<Rightarrow> bool" where
  "shape_vae input_dim latent_dim v \<longleftrightarrow>
     shape_linear input_dim 16 (enc0 v) \<and> shape_linear 16 8 (enc2 v) \<and>
     shape_linear 8 latent_dim (fc_mu v) \<and> shape_linear 8 latent_dim (fc_logvar v) \<and>
     shape_linear latent_dim 8 (dec0 v) \<and> shape_linear 8 16 (dec2 v) \<and>
     shape_linear 16 input_dim (dec4 v)"

definition encoder :: "vae \<Rightarrow> mat \<Rightarrow> error + mat" where
  "encoder v x = bind_result (Linear (enc0 v) x) (\<lambda>h. Linear (enc2 v) (ReLU h))"

definition decoder :: "vae \<Rightarrow> mat \<Rightarrow> error + mat" where
  "decoder v z =
     bind_result (Linear (dec0 v) z) (\<lambda>a.
     bind_result (Linear (dec2 v) (ReLU a)) (\<lambda>b.
     bind_result (Linear (dec4 v) (ReLU b)) (\<lambda>c.
     Inr (Sigmoid c))))"

definition encode :: "vae \<Rightarrow> mat \<Rightarrow> error + mat \<times> mat" where
  "encode v x =
     bind_result (encoder v x) (\<lambda>h.
     bind_result (Linear (fc_mu v) h) (\<lambda>mu.
     bind_result (Linear (fc_logvar v) h) (\<lambda>logvar.
     Inr (mu, logvar))))"

text \<open>
  \<^verbatim>\<open>torch.randn_like(std)\<close> draws one standard normal value per entry of \<open>std\<close>.
  The draw is a parameter of the model: \<open>noise i j\<close> is the value drawn for row \<open>i\<close>,
  column \<open>j\<close>.
\<close>

type_synonym noise = "nat \<Rightarrow> nat \<Rightarrow> real"

definition randn_like :: "noise \<Rightarrow> mat \<Rightarrow> mat" where
  "randn_like eps std = map (\<lambda>i. map (\<lambda>j. eps i j) [0..<length (std ! i)]) [0..<length std]"

definition reparameterize :: "noise \<Rightarrow> mat \<Rightarrow> mat \<Rightarrow> mat" where
  "reparameterize eps mu logvar =
     (let std = map (map (\<lambda>l. exp (0.5 * l))) logvar
      in map2 (map2 (+)) mu (map2 (map2 (*)) std (randn_like eps std)))"

definition GalaxyVAE_forward :: "vae \<Rightarrow> noise \<Rightarrow> mat \<Rightarrow> error + mat \<times> mat \<times> mat" where
  "GalaxyVAE_forward v eps x =
     bind_result (encode v x) (\<lambda>(mu, logvar).
     let z = reparameterize eps mu logvar in
     bind_result (decoder v z) (\<lambda>x_hat. Inr (x_hat, mu, logvar)))"

section \<open>Losses\<close>

text \<open>
  \<^verbatim>\<open>torch.autograd.grad(outputs=preds, inputs=t, grad_outputs=g)\<close> returns, for each
  entry of \<open>t\<close>, the sum over the entries of \<open>preds\<close> of \<open>g\<close> times the partial derivative
  of that entry of \<open>preds\<close> with respect to that entry of \<open>t\<close> (a vector-Jacobian
  product). The computation graph from \<open>t\<close> to \<open>preds\<close> is represented by these partial
  derivatives: \<open>Some J\<close>, where \<open>J ! j\<close> lists the partial derivatives of the (flattened)
  entries of \<open>preds\<close> with respect to entry \<open>j\<close> of \<open>t\<close>; \<open>None\<close> when \<open>t\<close> is not part
  of the graph of \<open>preds\<close>, in which case the call raises.
\<close>

type_synonym jacobian = "real list list"

definition ones_like :: "mat \<Rightarrow> vec" where
  "ones_like preds = map (\<lambda>_. 1) (concat preds)"

definition autograd_grad :: "jacobian option \<Rightarrow> vec \<Rightarrow> error + vec" where
  "autograd_grad J grad_outputs =
     (case J of None \<Rightarrow> Inl RuntimeError
      | Some cols \<Rightarrow> Inr (map (\<lambda>c. dot grad_outputs c) cols))"

definition physics_loss :: "mat \<Rightarrow> jacobian option \<Rightarrow> real \<Rightarrow> error + pyfloat" where
  "physics_loss preds J wgt =
     bind_result (autograd_grad J (ones_like preds)) (\<lambda>d_preds_dt.
     Inr (scale wgt (mean (map (\<lambda>d. d\<^sup>2) d_preds_dt))))"

text \<open>The default of the parameter \<^verbatim>\<open>weight\<close>.\<close>

definition physics_loss_weight :: real where
  "physics_loss_weight = 0.1"

text \<open>The loss as the specification words it: the weight times the mean of the squared
  derivative of \<open>preds\<close> with respect to \<open>t\<close>, one square per partial derivative.\<close>

definition physics_loss_spec :: "jacobian \<Rightarrow> real \<Rightarrow> pyfloat" where
  "physics_loss_spec J wgt = scale wgt (mean (map (\<lambda>d. d\<^sup>2) (concat J)))"

text \<open>\<open>wf_jacobian preds J\<close>: one row of partial derivatives per entry of \<open>t\<close>, each as
  long as \<open>preds\<close> has entries.\<close>

definition wf_jacobian :: "mat \<Rightarrow> jacobian \<Rightarrow> bool" where
  "wf_jacobian preds J \<longleftrightarrow> list_all (\<lambda>c. length c = length (concat preds)) J"

text \<open>The loss of the VAE, with the tensor operations of the source: elementwise on
  tensors of one shape, \<^verbatim>\<open>torch.sum\<close> over all entries.\<close>

definition tsum :: "mat \<Rightarrow> real" where
  "tsum X = sum_list (concat X)"

definition mse_loss_sum :: "mat \<Rightarrow> mat \<Rightarrow> real" where
  "mse_loss_sum x_hat x = tsum (map2 (map2 (\<lambda>a b. (a - b)\<^sup>2)) x_hat x)"

definition vae_loss :: "mat \<Rightarrow> mat \<Rightarrow> mat \<Rightarrow> mat \<Rightarrow> real" where
  "vae_loss x x_hat mu logvar =
     (let recon = mse_loss_sum x_hat x;
          kl = - 0.5 * tsum (map2 (map2 (-))
                 (map2 (map2 (-)) (map (map (\<lambda>l. 1 + l)) logvar) (map (map (\<lambda>m. m\<^sup>2)) mu))
                 (map (map exp) logvar))
      in recon + kl)"

text \<open>The loss as the specification words it: the squared errors and the closed-form
  KL term, each a sum over the batch index and the feature index.\<close>

definition vae_loss_spec :: "nat \<Rightarrow> nat \<Rightarrow> nat \<Rightarrow> mat \<Rightarrow> mat \<Rightarrow> mat \<Rightarrow> mat \<Rightarrow> real" where
  "vae_loss_spec n d k x x_hat mu logvar =
     (\<Sum>i<n. \<Sum>j<d. (x_hat ! i ! j - x ! i ! j)\<^sup>2) +
     - 0.5 * (\<Sum>i<n. \<Sum>j<k. 1 + logvar ! i ! j - (mu ! i ! j)\<^sup>2 - exp (logvar ! i ! j))"

section \<open>The world of the script\<close>

text \<open>
  What the script changes outside its own values: the position in the sequence of draws
  of NumPy's global generator, the files on disk, the lines printed, and whether gradient
  tracking is on. \<open>events\<close> is a log kept for the proofs: each evaluation of the PINN
  (with the gradient mode in force) and each call of the renderer (with its arguments).
  Every path the script writes is taken to be writable.

  The world also holds what the installed libraries fix.
  \<^item> \<open>np_scalar_prec\<close>: the precision, in bits, of the scalar type NumPy gives to a
    Python integer combined with an \<^verbatim>\<open>np.float32\<close> scalar: 24 (float32) under the
    promotion rules of NumPy 2, 53 (float64) under those of NumPy 1.
  \<^item> \<open>pil_extensions\<close>: the table \<^verbatim>\<open>Image.EXTENSION\<close> of Pillow for the extensions
    other than \<^verbatim>\<open>.gif\<close>, from lower-case extension to format name, and
    \<open>pil_save_all\<close>: the formats other than GIF that can save several frames.
\<close>

record arm_plot =
  arm_x :: vec
  arm_y :: vec
  color_shift :: real

datatype image = GalaxyPlot "arm_plot list" | Heatmap "nat list list"

text \<open>An image file as \<^verbatim>\<open>Image.open\<close> reads it: one frame, the frames of a GIF
  with its frame duration and loop count, or the frames of a file that Pillow wrote in
  another format.\<close>

datatype picture = Still image | Gif "image list" nat nat | Encoded string "image list"

datatype file_content = Pic picture | Garbage

datatype event = PinnCall bool mat tensor | DrawCall nat vec

record world =
  np_stream :: "nat \<Rightarrow> real"
  np_pos :: nat
  files :: "(string \<times> file_content) list"
  stdout :: "string list"
  grad_enabled :: bool
  events :: "event list"
  np_scalar_prec :: nat
  pil_extensions :: "(string \<times> string) list"
  pil_save_all :: "string list"

definition write_file :: "string \<Rightarrow> file_content \<Rightarrow> world \<Rightarrow> world" where
  "write_file path f w = w\<lparr>files := (path, f) # filter (\<lambda>(q, _). q \<noteq> path) (files w)\<rparr>"


text \<open>\<^verbatim>\<open>np.random.normal(loc, scale, size)\<close>: the next \<open>size\<close> draws of the generator,
  scaled and shifted.\<close>

definition np_random_normal :: "real \<Rightarrow> real \<Rightarrow> nat \<Rightarrow> world \<Rightarrow> vec \<times> world" where
  "np_random_normal loc sc n w =
     (map (\<lambda>k. loc + sc * np_stream w (np_pos w + k)) [0..<n],
      w\<lparr>np_pos := np_pos w + n\<rparr>)"

text \<open>\<^verbatim>\<open>with torch.no_grad():\<close> turns gradient tracking off for its body and restores
  the previous mode when the body is left.\<close>

definition no_grad :: "(world \<Rightarrow> error + 'a \<times> world) \<Rightarrow> world \<Rightarrow> error + 'a \<times> world" where
  "no_grad body w =
     bind_result (body (w\<lparr>grad_enabled := False\<rparr>)) (\<lambda>(y, w').
     Inr (y, w'\<lparr>grad_enabled := grad_enabled w\<rparr>))"

definition call_pinn :: "pinn \<Rightarrow> mat \<Rightarrow> tensor \<Rightarrow> world \<Rightarrow> error + mat \<times> world" where
  "call_pinn pn x t w =
     bind_result (GalaxyPINN_forward pn x t) (\<lambda>y.
     Inr (y, w\<lparr>events := events w @ [PinnCall (grad_enabled w) x t]\<rparr>))"

section \<open>The renderer\<close>

text \<open>\<^verbatim>\<open>int(x)\<close> on a Python float truncates toward zero.\<close>

definition py_int :: "real \<Rightarrow> int" where
  "py_int r = (if 0 \<le> r then \<lfloor>r\<rfloor> else \<lceil>r\<rceil>)"

text \<open>
  Rounding to a binary floating-point format with \<open>p\<close> bits of precision (24 for
  float32, 53 for float64), to nearest with ties to even; the exponent range is not
  bounded (no overflow, no subnormal numbers). \<open>ulp p x\<close> is the spacing of the format
  around \<open>x\<close>.
\<close>

definition round_half_even :: "real \<Rightarrow> int" where
  "round_half_even y =
     (let f = \<lfloor>y\<rfloor>; d = y - of_int f
      in if d < 1/2 then f else if 1/2 < d then f + 1 else if even f then f else f + 1)"

definition ulp :: "nat \<Rightarrow> real \<Rightarrow> real" where
  "ulp p x = 2 powr of_int (\<lfloor>log 2 \<bar>x\<bar>\<rfloor> + 1 - int p)"

definition fl :: "nat \<Rightarrow> real \<Rightarrow> real" where
  "fl p x = (if x = 0 then 0 else ulp p x * of_int (round_half_even (x / ulp p x)))"

text \<open>
  The value of \<^verbatim>\<open>2 + 4 * (P_CW + P_ACW)\<close>: the features are \<^verbatim>\<open>np.float32\<close> scalars,
  so their sum is rounded to float32; the product with 4 and the sum with 2 are rounded
  to the scalar type of precision \<open>p\<close> that NumPy gives them.
\<close>

definition arms_value :: "nat \<Rightarrow> real \<Rightarrow> real \<Rightarrow> real" where
  "arms_value p P_CW P_ACW = fl p (2 + fl p (4 * fl 24 (P_CW + P_ACW)))"

definition num_arms_of :: "nat \<Rightarrow> real \<Rightarrow> real \<Rightarrow> int" where
  "num_arms_of p P_CW P_ACW = py_int (arms_value p P_CW P_ACW)"

definition num_stars :: nat where
  "num_stars = 1000"

text \<open>The format \<^verbatim>\<open>{step:02d}\<close>: decimal digits, padded with zeros to two.\<close>

fun digits :: "nat \<Rightarrow> string" where
  "digits n = (if n < 10 then [''0123456789'' ! n] else digits (n div 10) @ [''0123456789'' ! (n mod 10)])"

definition format_02d :: "nat \<Rightarrow> string" where
  "format_02d n = replicate (2 - length (digits n)) (CHR ''0'') @ digits n"

definition step_filename :: "nat \<Rightarrow> string" where
  "step_filename step = ''results/evolution_step_'' @ format_02d step @ ''.png''"

text \<open>The loop \<^verbatim>\<open>for arm in range(num_arms)\<close>: one scatter plot per arm, each taking
  two fresh vectors of jitter.\<close>

fun draw_arms :: "vec \<Rightarrow> vec \<Rightarrow> int \<Rightarrow> real \<Rightarrow> nat list \<Rightarrow> world \<Rightarrow> arm_plot list \<times> world" where
  "draw_arms r theta num_arms brightness [] w = ([], w)"
| "draw_arms r theta num_arms brightness (arm # arms) w =
     (let arm_theta = map (\<lambda>th. th + (2 * pi / real_of_int num_arms) * real arm) theta;
          (jx, w1) = np_random_normal 0 0.02 num_stars w;
          x = map2 (+) (map2 (\<lambda>r a. r * cos a) r arm_theta) jx;
          (jy, w2) = np_random_normal 0 0.02 num_stars w1;
          y = map2 (+) (map2 (\<lambda>r a. r * sin a) r arm_theta) jy;
          cs = min 1.0 brightness;
          (rest, w3) = draw_arms r theta num_arms brightness arms w2
      in (\<lparr>arm_x = x, arm_y = y, color_shift = cs\<rparr> # rest, w3))"

definition draw_spiral_galaxy_features :: "nat \<Rightarrow> vec \<Rightarrow> world \<Rightarrow> error + world" where
  "draw_spiral_galaxy_features step features w =
     (if length features \<noteq> 9 then Inl ValueError
      else
        let P_EL = features ! 0; P_CW = features ! 1; P_ACW = features ! 2;
            P_CS = features ! 6;
            num_arms = num_arms_of (np_scalar_prec w) P_CW P_ACW;
            spiral_tightness = 0.5 + 3 * (1 - P_EL);
            brightness = 0.5 + P_CS;
            r = linspace_values 0.05 1.0 num_stars;
            theta = map (\<lambda>r. r * spiral_tightness * pi + real step * 0.3) r;
            w0 = w\<lparr>events := events w @ [DrawCall step features]\<rparr>;
            (arms, w1) = draw_arms r theta num_arms brightness [0..<nat num_arms] w0
        in Inr (write_file (step_filename step) (Pic (Still (GalaxyPlot arms))) w1))"

section \<open>The evolution simulator\<close>

text \<open>The loop \<^verbatim>\<open>for i, t in enumerate(t_vals)\<close> of \<^verbatim>\<open>simulate_evolution\<close>; each
  \<open>t\<close> is a row of the column \<open>t_vals\<close>.\<close>

fun evolution_loop :: "pinn \<Rightarrow> mat \<Rightarrow> (nat \<times> vec) list \<Rightarrow> world \<Rightarrow> error + world" where
  "evolution_loop pn start_state [] w = Inr w"
| "evolution_loop pn start_state ((i, t) # rest) w =
     (case expand (T1 t) (length start_state) of Inl e \<Rightarrow> Inl e
      | Inr t_input \<Rightarrow>
     (case call_pinn pn start_state t_input w of Inl e \<Rightarrow> Inl e
      | Inr (evolved, w1) \<Rightarrow>
     (case evolved of [] \<Rightarrow> Inl IndexError
      | row # _ \<Rightarrow>
     (case draw_spiral_galaxy_features i row w1 of Inl e \<Rightarrow> Inl e
      | Inr w2 \<Rightarrow> evolution_loop pn start_state rest w2))))"

definition default_steps :: int where
  "default_steps = 15"

text \<open>\<^verbatim>\<open>simulate_evolution(pinn, vae, start_state, steps=15)\<close>; \<open>None\<close> stands for the
  omitted argument. The calls \<^verbatim>\<open>pinn.eval(); vae.eval()\<close> change nothing here: neither
  network has a layer that depends on the training mode.\<close>

definition simulate_evolution :: "pinn \<Rightarrow> vae \<Rightarrow> mat \<Rightarrow> int option \<Rightarrow> world \<Rightarrow> error + world" where
  "simulate_evolution pn v start_state steps w =
     bind_result (linspace 0 1 (case steps of None \<Rightarrow> default_steps | Some n \<Rightarrow> n)) (\<lambda>ts.
     let t_vals = unsqueeze1 ts in
     bind_result
       (no_grad (\<lambda>w0. bind_result (evolution_loop pn start_state (enumerate 0 t_vals) w0)
                        (\<lambda>w1. Inr ((), w1))) w)
       (\<lambda>(u, w2). Inr w2))"

section \<open>The GIF\<close>















section \<open>The metrics\<close>

text \<open>\<^verbatim>\<open>nn.MSELoss()\<close>: the mean of the squared differences over all entries.\<close>

definition MSELoss :: "mat \<Rightarrow> mat \<Rightarrow> pyfloat" where
  "MSELoss input target = mean (concat (map2 (map2 (\<lambda>a b. (a - b)\<^sup>2)) input target))"

text \<open>\<^verbatim>\<open>(X > threshold).astype(int).flatten()\<close>.\<close>

definition binarize :: "real \<Rightarrow> mat \<Rightarrow> nat list" where
  "binarize threshold X = map (\<lambda>v. if v > threshold then 1 else 0) (concat X)"

text \<open>
  The three functions of scikit-learn the script calls, on flat arrays of labels:
  the share of positions that agree; the micro-averaged F1 score, from the counts of
  true positives, predicted and actual occurrences summed over the labels present (a
  quotient with denominator zero counts as 0); and the matrix of counts per (actual,
  predicted) pair of the labels present, in ascending order.
\<close>

definition accuracy_score :: "nat list \<Rightarrow> nat list \<Rightarrow> pyfloat" where
  "accuracy_score y_true y_pred = mean (map2 (\<lambda>a b. if a = b then 1 else 0) y_true y_pred)"

definition labels_of :: "nat list \<Rightarrow> nat list \<Rightarrow> nat list" where
  "labels_of y_true y_pred = sort (remdups (y_true @ y_pred))"

definition prf_divide :: "real \<Rightarrow> real \<Rightarrow> real" where
  "prf_divide a b = (if b = 0 then 0 else a / b)"

definition f1_score_micro :: "nat list \<Rightarrow> nat list \<Rightarrow> pyfloat" where
  "f1_score_micro y_true y_pred =
     (let labels = labels_of y_true y_pred;
          tp_sum = sum_list (map (\<lambda>l. real (length (filter (\<lambda>(a, b). a = l \<and> b = l) (zip y_true y_pred)))) labels);
          pred_sum = sum_list (map (\<lambda>l. real (length (filter (\<lambda>b. b = l) y_pred))) labels);
          true_sum = sum_list (map (\<lambda>l. real (length (filter (\<lambda>a. a = l) y_true))) labels);
          precision = prf_divide tp_sum pred_sum;
          recall = prf_divide tp_sum true_sum
      in Fin (prf_divide (2 * precision * recall) (precision + recall)))"

definition confusion_matrix :: "nat list \<Rightarrow> nat list \<Rightarrow> nat list list" where
  "confusion_matrix y_true y_pred =
     (let labels = labels_of y_true y_pred
      in map (\<lambda>a. map (\<lambda>b. length (filter (\<lambda>(u, v). u = a \<and> v = b) (zip y_true y_pred))) labels) labels)"

text \<open>The dictionaries the evaluation functions return: keys in insertion order.\<close>

type_synonym metrics = "(string \<times> pyfloat) list"

datatype pyval = Float pyfloat | Matrix "nat list list" | Records "metrics list"

definition getitem :: "(string \<times> 'v) list \<Rightarrow> string \<Rightarrow> error + 'v" where
  "getitem d k = (case map_of d k of None \<Rightarrow> Inl KeyError | Some v \<Rightarrow> Inr v)"

definition item_at :: "'a list \<Rightarrow> nat \<Rightarrow> error + 'a" where
  "item_at xs i = (if i < length xs then Inr (xs ! i) else Inl IndexError)"

definition evaluate_vae ::
  "vae \<Rightarrow> noise \<Rightarrow> mat \<Rightarrow> real \<Rightarrow> world \<Rightarrow> error + (string \<times> pyval) list \<times> world" where
  "evaluate_vae v eps data threshold w =
     no_grad (\<lambda>w0.
       bind_result (GalaxyVAE_forward v eps data) (\<lambda>(reconstructed, mu, logvar).
       let mse = MSELoss reconstructed data;
           rmse = np_sqrt mse;
           actual_flat = binarize threshold data;
           pred_flat = binarize threshold reconstructed;
           accuracy = accuracy_score actual_flat pred_flat;
           f1 = f1_score_micro actual_flat pred_flat;
           cm = confusion_matrix actual_flat pred_flat;
           w1 = write_file ''results/vae_confusion_matrix.png'' (Pic (Still (Heatmap cm))) w0
       in Inr ([(''MSE'', Float mse), (''RMSE'', Float rmse), (''Accuracy'', Float accuracy),
                (''F1 Score'', Float f1), (''Confusion Matrix'', Matrix cm)], w1))) w"

text \<open>The loop \<^verbatim>\<open>for t in t_values\<close> of \<^verbatim>\<open>evaluate_pinn\<close>, appending one record
  per time value.\<close>

fun pinn_records :: "pinn \<Rightarrow> mat \<Rightarrow> real \<Rightarrow> vec \<Rightarrow> world \<Rightarrow> error + metrics list \<times> world" where
  "pinn_records pn data threshold [] w = Inr ([], w)"
| "pinn_records pn data threshold (t # ts) w =
     (case expand (T0 t) (length data) of Inl e \<Rightarrow> Inl e
      | Inr t_tensor \<Rightarrow>
     (case call_pinn pn data t_tensor w of Inl e \<Rightarrow> Inl e
      | Inr (predictions, w1) \<Rightarrow>
       let mse = MSELoss predictions data;
           rmse = np_sqrt mse;
           actual_flat = binarize threshold data;
           pred_flat = binarize threshold predictions;
           accuracy = accuracy_score actual_flat pred_flat;
           f1 = f1_score_micro actual_flat pred_flat;
           result = [(''t'', Fin t), (''MSE'', mse), (''RMSE'', rmse),
                     (''Accuracy'', accuracy), (''F1 Score'', f1)]
       in (case pinn_records pn data threshold ts w1 of Inl e \<Rightarrow> Inl e
           | Inr (results, w2) \<Rightarrow> Inr (result # results, w2))))"

text \<open>\<^verbatim>\<open>[r[key] for r in results]\<close>.\<close>

fun column :: "string \<Rightarrow> metrics list \<Rightarrow> error + pyfloat list" where
  "column key [] = Inr []"
| "column key (r # rs) =
     (case getitem r key of Inl e \<Rightarrow> Inl e
      | Inr x \<Rightarrow> (case column key rs of Inl e \<Rightarrow> Inl e | Inr xs \<Rightarrow> Inr (x # xs)))"

definition evaluate_pinn ::
  "pinn \<Rightarrow> mat \<Rightarrow> vec option \<Rightarrow> world \<Rightarrow> error + (string \<times> pyval) list \<times> world" where
  "evaluate_pinn pn data t_values_arg w =
     bind_result (case t_values_arg of None \<Rightarrow> linspace 0 1 10 | Some ts \<Rightarrow> Inr ts) (\<lambda>t_values.
     let threshold = 0.5 in
     bind_result (no_grad (pinn_records pn data threshold t_values) w) (\<lambda>(results, w1).
     bind_result (column ''MSE'' results) (\<lambda>mses.
     bind_result (column ''RMSE'' results) (\<lambda>rmses.
     bind_result (column ''Accuracy'' results) (\<lambda>accuracies.
     bind_result (column ''F1 Score'' results) (\<lambda>f1s.
     let avg_mse = np_mean mses;
         avg_rmse = np_mean rmses;
         avg_accuracy = np_mean accuracies;
         avg_f1 = np_mean f1s in
     bind_result (item_at t_values (length t_values div 2)) (\<lambda>mid_t.
     bind_result (expand (T0 mid_t) (length data)) (\<lambda>mid_t_tensor.
     bind_result (call_pinn pn data mid_t_tensor w1) (\<lambda>(mid_predictions, w2).
     let cm = confusion_matrix (binarize threshold data) (binarize threshold mid_predictions);
         w3 = write_file ''results/pinn_confusion_matrix.png'' (Pic (Still (Heatmap cm))) w2
     in Inr ([(''Detail'', Records results), (''Average MSE'', Float avg_mse),
              (''Average RMSE'', Float avg_rmse), (''Average Accuracy'', Float avg_accuracy),
              (''Average F1 Score'', Float avg_f1), (''Mid-t Confusion Matrix'', Matrix cm)],
             w3))))))))))"

section \<open>Predicates of the claims and concrete inputs\<close>

text \<open>\<open>in_unit X\<close>: every entry of \<open>X\<close> lies in the unit interval.\<close>

definition in_unit :: "mat \<Rightarrow> bool" where
  "in_unit X \<longleftrightarrow> list_all (list_all (\<lambda>y. 0 \<le> y \<and> y \<le> 1)) X"

text \<open>Networks with all parameters zero, in the shapes of the default constructors
  \<^verbatim>\<open>GalaxyPINN()\<close> and \<^verbatim>\<open>GalaxyVAE()\<close>; the synthetic row of the specification's
  end-to-end scenario; a world with nothing on disk, NumPy 2 and a Pillow that also
  knows PNG.\<close>

definition zero_linear :: "nat \<Rightarrow> nat \<Rightarrow> linear" where
  "zero_linear i out =
     \<lparr>in_features = i, out_features = out, weight = replicate out (replicate i 0),
      bias = replicate out 0\<rparr>"

definition zero_pinn :: pinn where
  "zero_pinn = \<lparr>net0 = zero_linear 10 32, net2 = zero_linear 32 32, net4 = zero_linear 32 9\<rparr>"

definition zero_vae :: vae where
  "zero_vae =
     \<lparr>enc0 = zero_linear 9 16, enc2 = zero_linear 16 8, fc_mu = zero_linear 8 3,
      fc_logvar = zero_linear 8 3, dec0 = zero_linear 3 8, dec2 = zero_linear 8 16,
      dec4 = zero_linear 16 9\<rparr>"

definition synthetic_row :: vec where
  "synthetic_row = [0.9, 0, 0, 0, 0, 0.1, 0.8, 0.9, 0.8]"

definition empty_world :: world where
  "empty_world =
     \<lparr>np_stream = (\<lambda>k. 0), np_pos = 0, files = [], stdout = [], grad_enabled = True,
      events = [], np_scalar_prec = 24, pil_extensions = [(''.png'', ''PNG'')],
      pil_save_all = [''PNG'']\<rparr>"


text \<open>
  \<open>finite_record t r\<close>: \<open>r\<close> is a per-time record for the time value \<open>t\<close>, with the
  five keys in order and a finite number under each. \<open>rmse_is_sqrt_mse mse rmse\<close>:
  \<open>rmse\<close> is \<^verbatim>\<open>np.sqrt(mse)\<close>, the real square root when \<open>mse\<close> is a number.
\<close>

definition finite_record :: "real \<Rightarrow> metrics \<Rightarrow> bool" where
  "finite_record t r \<longleftrightarrow>
     (\<exists>m rm ac f. r = [(''t'', Fin t), (''MSE'', Fin m), (''RMSE'', Fin rm),
                       (''Accuracy'', Fin ac), (''F1 Score'', Fin f)])"

definition rmse_is_sqrt_mse :: "pyfloat \<Rightarrow> pyfloat \<Rightarrow> bool" where
  "rmse_is_sqrt_mse mse rmse \<longleftrightarrow>
     rmse = np_sqrt mse \<and> (case mse of NaN \<Rightarrow> True | Fin x \<Rightarrow> 0 \<le> x \<and> rmse = Fin (sqrt x))"

text \<open>
  What a run of \<^verbatim>\<open>simulate_evolution\<close> adds to the log. \<open>first_row\<close> is
  \<^verbatim>\<open>evolved.cpu().numpy()[0]\<close>; \<open>evolved_at pn start t\<close> is the vector handed to the
  renderer for the time value \<open>t\<close>; \<open>loop_events\<close> lists the log entries of the loop,
  from the network, the starting state and the time values alone; \<open>new_events w w'\<close> are
  the entries of \<open>w'\<close> that \<open>w\<close> did not have yet.
\<close>

definition first_row :: "mat \<Rightarrow> error + vec" where
  "first_row evolved = (case evolved of [] \<Rightarrow> Inl IndexError | row # _ \<Rightarrow> Inr row)"

definition evolved_at :: "pinn \<Rightarrow> mat \<Rightarrow> real \<Rightarrow> error + vec" where
  "evolved_at pn start t =
     bind_result (GalaxyPINN_forward pn start (T2 (replicate (length start) [t]))) first_row"

fun loop_events :: "pinn \<Rightarrow> mat \<Rightarrow> bool \<Rightarrow> (nat \<times> vec) list \<Rightarrow> error + event list" where
  "loop_events pn start g [] = Inr []"
| "loop_events pn start g ((i, t) # rest) =
     (case expand (T1 t) (length start) of Inl e \<Rightarrow> Inl e
      | Inr t_input \<Rightarrow>
     (case GalaxyPINN_forward pn start t_input of Inl e \<Rightarrow> Inl e
      | Inr evolved \<Rightarrow>
     (case first_row evolved of Inl e \<Rightarrow> Inl e
      | Inr row \<Rightarrow>
       if length row \<noteq> 9 then Inl ValueError
       else (case loop_events pn start g rest of Inl e \<Rightarrow> Inl e
             | Inr evs \<Rightarrow> Inr (PinnCall g start t_input # DrawCall i row # evs)))))"

definition new_events :: "world \<Rightarrow> world \<Rightarrow> event list" where
  "new_events w w' = drop (length (events w)) (events w')"

section \<open>Results and shapes\<close>

lemma bind_result_simps [simp]:
  "bind_result (Inl e) f = Inl e" "bind_result (Inr y) f = f y"
  by (simp_all add: bind_result_def)

lemma rect_map_map: "rect n m X \<Longrightarrow> rect n m (map (map f) X)"
  by (auto simp: rect_def list_all_iff)

lemma rect_map2: "rect n m X \<Longrightarrow> rect n m Y \<Longrightarrow> rect n m (map2 (map2 f) X Y)"
  by (auto simp: rect_def list_all_iff set_zip)

lemma rect_replicate [simp]: "rect n m (replicate n (replicate m c))"
  by (simp add: rect_def list_all_iff)

lemma rect_synthetic: "rect 1 9 [synthetic_row]"
  by (simp add: rect_def synthetic_row_def)

lemma Linear_shape:
  assumes "shape_linear i out l" "rect n i X"
  shows "\<exists>Y. Linear l X = Inr Y \<and> rect n out Y"
  using assms by (auto simp: Linear_def shape_linear_def rect_def list_all_iff)

lemma shape_zero_linear [simp]: "shape_linear i out (zero_linear i out)"
  by (simp add: shape_linear_def zero_linear_def)

lemma shape_zero_pinn [simp]: "shape_pinn 9 32 zero_pinn"
  by (simp add: shape_pinn_def zero_pinn_def)

lemma shape_zero_vae [simp]: "shape_vae 9 3 zero_vae"
  by (simp add: shape_vae_def zero_vae_def)

section \<open>The PINN accepts a flat or a column time tensor\<close>

lemma cat1_column:
  assumes "rect n i x" "length ts = n"
  shows "\<exists>xt. cat1 x (T2 (unsqueeze1 ts)) = Inr xt \<and> rect n (i + 1) xt"
  using assms by (auto simp: rect_def list_all_iff unsqueeze1_def set_zip)

lemma net_shape:
  assumes "shape_pinn i h pn" "rect n (i + 1) xt"
  shows "\<exists>y. net pn xt = Inr y \<and> rect n i y"
proof -
  from assms obtain h0 where h0: "Linear (net0 pn) xt = Inr h0" "rect n h h0"
    using Linear_shape[of "i + 1" h "net0 pn" n xt] by (auto simp: shape_pinn_def)
  from assms obtain h1 where h1: "Linear (net2 pn) (Tanh h0) = Inr h1" "rect n h h1"
    using Linear_shape[of h h "net2 pn" n "Tanh h0"] h0
    by (auto simp: shape_pinn_def Tanh_def rect_map_map)
  from assms obtain y where y: "Linear (net4 pn) (Tanh h1) = Inr y" "rect n i y"
    using Linear_shape[of h i "net4 pn" n "Tanh h1"] h1
    by (auto simp: shape_pinn_def Tanh_def rect_map_map)
  show ?thesis using h0 h1 y by (simp add: net_def)
qed

lemma forward_column_shape:
  assumes "shape_pinn i h pn" "rect n i x" "length ts = n"
  shows "\<exists>y. GalaxyPINN_forward pn x (T2 (unsqueeze1 ts)) = Inr y \<and> rect n i y"
proof -
  from cat1_column[OF assms(2,3)] obtain xt where
    xt: "cat1 x (T2 (unsqueeze1 ts)) = Inr xt" "rect n (i + 1) xt" by blast
  from net_shape[OF assms(1) xt(2)] obtain y where "net pn xt = Inr y" "rect n i y" by blast
  then show ?thesis using xt by (simp add: GalaxyPINN_forward_def)
qed

text \<open>
  Claim C9. \<^verbatim>\<open>GalaxyPINN.forward\<close> takes the time input as a one-dimensional tensor or
  as a column: on a one-dimensional \<open>t\<close> it gives what it gives on \<open>t\<close> reshaped to a
  column, because \<open>t\<close> is unsqueezed before it is concatenated to \<open>x\<close>. Where \<open>t\<close> has
  the batch length of \<open>x\<close> and the network the shapes of its constructor, both calls
  return a tensor of the shape of \<open>x\<close>.
\<close>

theorem forward_flat_t_is_column_t:
  "GalaxyPINN_forward pn x (T1 ts) = GalaxyPINN_forward pn x (T2 (unsqueeze1 ts)) \<and>
   (shape_pinn i h pn \<and> rect n i x \<and> length ts = n \<longrightarrow>
      (\<exists>y. GalaxyPINN_forward pn x (T1 ts) = Inr y \<and> rect n i y))"
proof -
  have eq: "GalaxyPINN_forward pn x (T1 ts) = GalaxyPINN_forward pn x (T2 (unsqueeze1 ts))"
    by (simp add: GalaxyPINN_forward_def)
  show ?thesis unfolding eq using forward_column_shape[of i h pn n x ts] eq by simp
qed

theorem forward_flat_t_is_column_t_witness:
  "shape_pinn 9 32 zero_pinn \<and> rect 1 9 [synthetic_row] \<and> length [0 :: real] = 1 \<and>
   GalaxyPINN_forward zero_pinn [synthetic_row] (T1 [0]) =
     GalaxyPINN_forward zero_pinn [synthetic_row] (T2 (unsqueeze1 [0])) \<and>
   (\<exists>y. GalaxyPINN_forward zero_pinn [synthetic_row] (T1 [0]) = Inr y \<and> rect 1 9 y)"
proof -
  have a: "shape_pinn 9 32 zero_pinn" by simp
  have b: "rect 1 9 [synthetic_row]" by (rule rect_synthetic)
  have c: "length [0 :: real] = 1" by simp
  from forward_flat_t_is_column_t[of zero_pinn "[synthetic_row]" "[0]" 9 32 1] a b c
  show ?thesis by blast
qed

section \<open>The physics residual loss\<close>

lemma dot_ones: "length c = length g \<Longrightarrow> dot (map (\<lambda>_. 1) g) c = sum_list c"
proof (induction c arbitrary: g)
  case Nil
  then show ?case by (simp add: dot_def)
next
  case (Cons a c)
  then show ?case by (cases g) (auto simp: dot_def)
qed

lemma grad_ones:
  assumes "wf_jacobian preds J"
  shows "autograd_grad (Some J) (ones_like preds) = Inr (map sum_list J)"
  using assms
  by (auto simp: autograd_grad_def wf_jacobian_def ones_like_def list_all_iff dot_ones)

lemma physics_loss_value:
  assumes "wf_jacobian preds J" "J \<noteq> []"
  shows "physics_loss preds (Some J) w =
           Inr (Fin (w * (sum_list (map (\<lambda>c. (sum_list c)\<^sup>2) J) / real (length J))))"
  using assms by (simp add: physics_loss_def grad_ones mean_def comp_def)

lemma sq_sum_nonneg: "0 \<le> sum_list (map (\<lambda>c. (sum_list c)\<^sup>2) J)" for J :: "real list list"
  by (rule sum_list_nonneg) auto

lemma sq_sum_zero:
  "list_all (list_all (\<lambda>d. d = 0)) J \<Longrightarrow> sum_list (map (\<lambda>c. (sum_list c)\<^sup>2) J) = 0"
  for J :: "real list list"
proof (induction J)
  case Nil
  then show ?case by simp
next
  case (Cons c J)
  have "sum_list c = 0" using Cons.prems by (induction c) auto
  then show ?case using Cons by simp
qed

text \<open>
  Claim C1. For \<open>preds\<close> differentiable with respect to \<open>t\<close> (the graph from \<open>t\<close> to
  \<open>preds\<close> exists, with partial derivatives \<open>J\<close>) and \<open>t\<close> not empty,
  \<^verbatim>\<open>physics_loss(preds, t, weight=0.1)\<close> is 0.1 times the mean of the squares of the
  entries of the tensor that automatic differentiation returns: one entry for each entry
  of \<open>t\<close>, the sum of the partial derivatives of all entries of \<open>preds\<close> with respect to
  it (one square per entry of \<open>t\<close>, not one per partial derivative). So for such inputs
  the loss is never negative, and it is 0 when \<open>preds\<close> is constant with respect to \<open>t\<close>
  (all partial derivatives are 0).
\<close>

theorem physics_loss_mean_square:
  assumes "wf_jacobian preds J" and "J \<noteq> []"
  shows "\<exists>r. physics_loss preds (Some J) physics_loss_weight = Inr (Fin r) \<and>
             r = 0.1 * (sum_list (map (\<lambda>c. (sum_list c)\<^sup>2) J) / real (length J)) \<and>
             0 \<le> r \<and>
             (list_all (list_all (\<lambda>d. d = 0)) J \<longrightarrow> r = 0)"
proof -
  let ?m = "sum_list (map (\<lambda>c. (sum_list c)\<^sup>2) J) / real (length J)"
  have v: "physics_loss preds (Some J) physics_loss_weight = Inr (Fin (0.1 * ?m))"
    using assms by (simp add: physics_loss_value physics_loss_weight_def)
  have nn: "0 \<le> ?m" using sq_sum_nonneg[of J] by simp
  have z: "list_all (list_all (\<lambda>d. d = 0)) J \<longrightarrow> 0.1 * ?m = 0"
    by (simp add: sq_sum_zero)
  show ?thesis using v nn z by simp
qed

theorem physics_loss_mean_square_witness:
  "wf_jacobian [[1, 2]] [[3, - 1], [1, 1]] \<and> [[3, - 1], [1, 1]] \<noteq> ([] :: real list list) \<and>
   physics_loss [[1, 2]] (Some [[3, - 1], [1, 1]]) physics_loss_weight = Inr (Fin 0.4) \<and>
   wf_jacobian [[1, 2]] [[0, 0]] \<and> list_all (list_all (\<lambda>d. d = 0)) [[0, 0 :: real]] \<and>
   physics_loss [[1, 2]] (Some [[0, 0]]) physics_loss_weight = Inr (Fin 0)"
proof -
  have a: "wf_jacobian [[1, 2]] [[3, - 1], [1, 1]]" "wf_jacobian [[1, 2]] [[0, 0]]"
    by (simp_all add: wf_jacobian_def)
  from physics_loss_mean_square[OF a(1)] have
    "physics_loss [[1, 2]] (Some [[3, - 1], [1, 1]]) physics_loss_weight = Inr (Fin 0.4)"
    by auto
  moreover from physics_loss_mean_square[OF a(2)] have
    "physics_loss [[1, 2]] (Some [[0, 0]]) physics_loss_weight = Inr (Fin 0)"
    by auto
  ultimately show ?thesis using a by simp
qed

text \<open>
  Claim C1 as the specification words it, with the mean taken over the squared partial
  derivatives and for all inputs, fails on the code. For \<open>preds\<close> of two entries and \<open>t\<close> of two, with
  partial derivatives 3 and -1 with respect to the first entry of \<open>t\<close> and 1 and 1 with
  respect to the second, the code returns 0.4, where 0.1 times the mean of the squared
  derivatives is 0.3. For \<open>t\<close> of one entry with partial derivatives 1 and -1 the code
  returns 0, where 0.1 times the mean of the squared derivatives is 0.1: the loss can
  vanish for a \<open>preds\<close> that is not constant. And for empty \<open>preds\<close> and \<open>t\<close> the code
  returns NaN, which is not a non-negative number.
\<close>

theorem physics_loss_counterexample:
  "physics_loss [[1, 2]] (Some [[3, - 1], [1, 1]]) physics_loss_weight = Inr (Fin 0.4) \<and>
   physics_loss_spec [[3, - 1], [1, 1]] physics_loss_weight = Fin 0.3 \<and>
   physics_loss [[1, 2]] (Some [[1, - 1]]) physics_loss_weight = Inr (Fin 0) \<and>
   physics_loss_spec [[1, - 1]] physics_loss_weight = Fin 0.1 \<and>
   physics_loss [] (Some []) physics_loss_weight = Inr NaN"
  by (simp add: physics_loss_def physics_loss_spec_def autograd_grad_def ones_like_def dot_def
      mean_def bind_result_def physics_loss_weight_def)

section \<open>The loss of the VAE\<close>

lemma sum_list_nth_sum: "sum_list (map g xs) = (\<Sum>i<length xs. g (xs ! i))"
  for g :: "'a \<Rightarrow> real"
  by (induction xs rule: rev_induct) (auto simp: nth_append)

lemma map2_nth_sum:
  fixes f :: "'a \<Rightarrow> 'b \<Rightarrow> real"
  assumes "length a = m" "length b = m"
  shows "sum_list (map2 f a b) = (\<Sum>j<m. f (a ! j) (b ! j))"
proof -
  have "sum_list (map2 f a b) = (\<Sum>j<length (zip a b). (\<lambda>(u, v). f u v) (zip a b ! j))"
    by (rule sum_list_nth_sum)
  also have "\<dots> = (\<Sum>j<m. f (a ! j) (b ! j))" using assms by simp
  finally show ?thesis .
qed

lemma sum_list_concat_rows: "sum_list (concat X) = sum_list (map sum_list X)"
  for X :: "real list list"
  by (induction X) auto

lemma tsum_map2:
  assumes "rect n m A" "rect n m B"
  shows "tsum (map2 (map2 f) A B) = (\<Sum>i<n. \<Sum>j<m. f (A ! i ! j) (B ! i ! j))"
proof -
  have len: "length A = n" "length B = n" using assms by (auto simp: rect_def)
  have rows: "\<And>i. i < n \<Longrightarrow> length (A ! i) = m \<and> length (B ! i) = m"
    using assms by (auto simp: rect_def list_all_length)
  have "tsum (map2 (map2 f) A B) = sum_list (map2 (\<lambda>a b. sum_list (map2 f a b)) A B)"
    by (simp add: tsum_def sum_list_concat_rows comp_def case_prod_unfold)
  also have "\<dots> = (\<Sum>i<n. sum_list (map2 f (A ! i) (B ! i)))"
    using len by (rule map2_nth_sum)
  also have "\<dots> = (\<Sum>i<n. \<Sum>j<m. f (A ! i ! j) (B ! i ! j))"
    by (rule sum.cong) (auto simp: rows map2_nth_sum)
  finally show ?thesis .
qed

text \<open>
  Claim C3. For \<open>x\<close> and \<open>x_hat\<close> of one shape and \<open>mu\<close> and \<open>logvar\<close> of one shape,
  \<^verbatim>\<open>vae_loss(x, x_hat, mu, logvar)\<close> is the sum of the squared errors between \<open>x_hat\<close>
  and \<open>x\<close> plus the closed-form KL term, minus one half of the sum of
  \<open>1 + logvar - mu\<^sup>2 - exp logvar\<close>; both are sums over the batch and the feature
  index, with no division by a count.
\<close>

theorem vae_loss_is_sse_plus_kl:
  assumes "rect n d x" "rect n d x_hat" "rect n k mu" "rect n k logvar"
  shows "vae_loss x x_hat mu logvar = vae_loss_spec n d k x x_hat mu logvar"
proof -
  have recon: "mse_loss_sum x_hat x = (\<Sum>i<n. \<Sum>j<d. (x_hat ! i ! j - x ! i ! j)\<^sup>2)"
    unfolding mse_loss_sum_def using assms(2,1) by (rule tsum_map2)
  have r1: "rect n k (map (map (\<lambda>l. 1 + l)) logvar)" "rect n k (map (map (\<lambda>m. m\<^sup>2)) mu)"
    "rect n k (map (map exp) logvar)"
    using assms by (auto simp: rect_map_map)
  have r2: "rect n k (map2 (map2 (-)) (map (map (\<lambda>l. 1 + l)) logvar) (map (map (\<lambda>m. m\<^sup>2)) mu))"
    using r1 by (auto simp: rect_map2)
  have nth1: "\<And>i j. i < n \<Longrightarrow> j < k \<Longrightarrow>
      map2 (map2 (-)) (map (map (\<lambda>l. 1 + l)) logvar) (map (map (\<lambda>m. m\<^sup>2)) mu) ! i ! j
        = 1 + logvar ! i ! j - (mu ! i ! j)\<^sup>2"
    using assms by (auto simp: rect_def list_all_length)
  have nth2: "\<And>i j. i < n \<Longrightarrow> j < k \<Longrightarrow> map (map exp) logvar ! i ! j = exp (logvar ! i ! j)"
    using assms by (auto simp: rect_def list_all_length)
  have kl: "tsum (map2 (map2 (-))
                 (map2 (map2 (-)) (map (map (\<lambda>l. 1 + l)) logvar) (map (map (\<lambda>m. m\<^sup>2)) mu))
                 (map (map exp) logvar))
        = (\<Sum>i<n. \<Sum>j<k. 1 + logvar ! i ! j - (mu ! i ! j)\<^sup>2 - exp (logvar ! i ! j))"
    unfolding tsum_map2[OF r2 r1(3)] by (intro sum.cong refl) (simp add: nth1 nth2)
  show ?thesis
    unfolding vae_loss_def vae_loss_spec_def Let_def recon kl by simp
qed

theorem vae_loss_is_sse_plus_kl_witness:
  "rect 2 2 [[1, 2], [0, 0]] \<and> rect 2 2 [[0, 1], [3, 0]] \<and> rect 2 1 [[2], [0]] \<and>
   rect 2 1 [[0], [0]] \<and>
   vae_loss [[1, 2], [0, 0]] [[0, 1], [3, 0]] [[2], [0]] [[0], [0]] =
     vae_loss_spec 2 2 1 [[1, 2], [0, 0]] [[0, 1], [3, 0]] [[2], [0]] [[0], [0]] \<and>
   vae_loss [[1, 2], [0, 0]] [[0, 1], [3, 0]] [[2], [0]] [[0], [0]] = 13"
proof -
  have a: "rect 2 2 [[1, 2], [0, 0]]" "rect 2 2 [[0, 1], [3, 0]]" "rect 2 1 [[2], [0]]"
    "rect 2 1 [[0], [0]]"
    by (simp_all add: rect_def)
  have v: "vae_loss [[1, 2], [0, 0]] [[0, 1], [3, 0]] [[2], [0]] [[0], [0]] = 13"
    by (simp add: vae_loss_def mse_loss_sum_def tsum_def)
  show ?thesis using a v vae_loss_is_sse_plus_kl[OF a] by simp
qed

section \<open>The decoder of the VAE stays in the unit cube\<close>

lemma sigmoid_unit: "0 \<le> sigmoid v \<and> sigmoid v \<le> 1"
  unfolding sigmoid_def by (simp add: add_pos_pos less_imp_le)

lemma Sigmoid_in_unit: "in_unit (Sigmoid c)"
  by (simp add: in_unit_def Sigmoid_def list_all_iff sigmoid_unit)

lemma decoder_in_unit: "decoder v z = Inr x_hat \<Longrightarrow> in_unit x_hat"
  by (auto simp: decoder_def bind_result_def Sigmoid_in_unit split: sum.splits)

lemma decoder_shape:
  assumes "shape_vae d k v" "rect n k z"
  shows "\<exists>x_hat. decoder v z = Inr x_hat \<and> rect n d x_hat"
proof -
  from assms obtain a where a: "Linear (dec0 v) z = Inr a" "rect n 8 a"
    using Linear_shape[of k 8 "dec0 v" n z] by (auto simp: shape_vae_def)
  from assms obtain b where b: "Linear (dec2 v) (ReLU a) = Inr b" "rect n 16 b"
    using Linear_shape[of 8 16 "dec2 v" n "ReLU a"] a
    by (auto simp: shape_vae_def ReLU_def rect_map_map)
  from assms obtain c where c: "Linear (dec4 v) (ReLU b) = Inr c" "rect n d c"
    using Linear_shape[of 16 d "dec4 v" n "ReLU b"] b
    by (auto simp: shape_vae_def ReLU_def rect_map_map)
  show ?thesis using a b c by (simp add: decoder_def Sigmoid_def rect_map_map)
qed

lemma encode_shape:
  assumes "shape_vae d k v" "rect n d x"
  shows "\<exists>mu logvar. encode v x = Inr (mu, logvar) \<and> rect n k mu \<and> rect n k logvar"
proof -
  from assms obtain h0 where h0: "Linear (enc0 v) x = Inr h0" "rect n 16 h0"
    using Linear_shape[of d 16 "enc0 v" n x] by (auto simp: shape_vae_def)
  from assms obtain h where h: "Linear (enc2 v) (ReLU h0) = Inr h" "rect n 8 h"
    using Linear_shape[of 16 8 "enc2 v" n "ReLU h0"] h0
    by (auto simp: shape_vae_def ReLU_def rect_map_map)
  from assms obtain mu where mu: "Linear (fc_mu v) h = Inr mu" "rect n k mu"
    using Linear_shape[of 8 k "fc_mu v" n h] h by (auto simp: shape_vae_def)
  from assms obtain lv where lv: "Linear (fc_logvar v) h = Inr lv" "rect n k lv"
    using Linear_shape[of 8 k "fc_logvar v" n h] h by (auto simp: shape_vae_def)
  show ?thesis using h0 h mu lv by (simp add: encode_def encoder_def)
qed

lemma randn_like_shape: "rect n k std \<Longrightarrow> rect n k (randn_like eps std)"
  by (auto simp: rect_def randn_like_def list_all_iff list_all_length)

lemma reparameterize_shape:
  assumes "rect n k mu" "rect n k logvar"
  shows "rect n k (reparameterize eps mu logvar)"
  unfolding reparameterize_def Let_def
  by (intro rect_map2 assms randn_like_shape rect_map_map)

lemma forward_shape:
  assumes "shape_vae d k v" "rect n d x"
  shows "\<exists>x_hat mu logvar. GalaxyVAE_forward v eps x = Inr (x_hat, mu, logvar) \<and>
           rect n d x_hat \<and> in_unit x_hat \<and> rect n k mu \<and> rect n k logvar"
proof -
  from encode_shape[OF assms] obtain mu logvar where
    e: "encode v x = Inr (mu, logvar)" "rect n k mu" "rect n k logvar" by blast
  from decoder_shape[OF assms(1) reparameterize_shape[OF e(2,3)], of eps] obtain x_hat where
    d: "decoder v (reparameterize eps mu logvar) = Inr x_hat" "rect n d x_hat" by blast
  show ?thesis using e d decoder_in_unit[OF d(1)] by (simp add: GalaxyVAE_forward_def)
qed

lemma forward_in_unit:
  "GalaxyVAE_forward v eps x = Inr (x_hat, mu, logvar) \<Longrightarrow> in_unit x_hat"
  by (auto simp: GalaxyVAE_forward_def bind_result_def Let_def split: sum.splits prod.splits
           dest: decoder_in_unit)

text \<open>
  Claim C2. For a VAE with the shapes of its constructor (input dimension \<open>d\<close>, latent
  dimension \<open>k\<close>; 9 and 3 by default), every batch \<open>z\<close> of latent codes and every batch
  \<open>x\<close> of feature vectors, whatever their values: the decoder returns \<open>x_hat\<close> with one
  row of \<open>d\<close> entries per code, each entry in the unit interval, and so does
  \<^verbatim>\<open>GalaxyVAE.forward\<close> for every draw \<open>eps\<close> of the noise. The bound comes from the
  final sigmoid alone: whatever the decoder returns is in the unit cube.
\<close>

theorem vae_reconstruction_in_unit_cube:
  "(shape_vae d k v \<and> rect n k z \<longrightarrow>
      (\<exists>x_hat. decoder v z = Inr x_hat \<and> rect n d x_hat \<and> in_unit x_hat)) \<and>
   (shape_vae d k v \<and> rect n d x \<longrightarrow>
      (\<exists>x_hat mu logvar. GalaxyVAE_forward v eps x = Inr (x_hat, mu, logvar) \<and>
         rect n d x_hat \<and> in_unit x_hat)) \<and>
   (\<forall>y. decoder v z = Inr y \<longrightarrow> in_unit y) \<and>
   (\<forall>y mu logvar. GalaxyVAE_forward v eps x = Inr (y, mu, logvar) \<longrightarrow> in_unit y)"
proof -
  have a: "shape_vae d k v \<and> rect n k z \<longrightarrow>
      (\<exists>x_hat. decoder v z = Inr x_hat \<and> rect n d x_hat \<and> in_unit x_hat)"
    using decoder_shape[of d k v n z] decoder_in_unit[of v z] by blast
  have b: "shape_vae d k v \<and> rect n d x \<longrightarrow>
      (\<exists>x_hat mu logvar. GalaxyVAE_forward v eps x = Inr (x_hat, mu, logvar) \<and>
         rect n d x_hat \<and> in_unit x_hat)"
    using forward_shape[of d k v n x eps] by blast
  show ?thesis using a b decoder_in_unit[of v z] forward_in_unit[of v eps x] by blast
qed

theorem vae_reconstruction_in_unit_cube_witness:
  "shape_vae 9 3 zero_vae \<and> rect 1 3 [[5, - 2, 0]] \<and> rect 1 9 [synthetic_row] \<and>
   (\<exists>x_hat. decoder zero_vae [[5, - 2, 0]] = Inr x_hat \<and> rect 1 9 x_hat \<and> in_unit x_hat) \<and>
   (\<exists>x_hat mu logvar. GalaxyVAE_forward zero_vae (\<lambda>i j. 1) [synthetic_row] = Inr (x_hat, mu, logvar) \<and>
      rect 1 9 x_hat \<and> in_unit x_hat)"
proof -
  have a: "shape_vae 9 3 zero_vae" by simp
  have b: "rect 1 3 [[5, - 2, 0]]" by (simp add: rect_def)
  have c: "rect 1 9 [synthetic_row]" by (rule rect_synthetic)
  from vae_reconstruction_in_unit_cube[of 9 3 zero_vae 1 "[[5, - 2, 0]]" "[synthetic_row]" "\<lambda>i j. 1"]
    a b c
  show ?thesis by blast
qed

section \<open>The number of spiral arms\<close>

subsection \<open>Rounding keeps a value between the numbers of the format around it\<close>

lemma rhe_floor: "\<lfloor>y\<rfloor> \<le> round_half_even y"
  by (simp add: round_half_even_def Let_def)

lemma rhe_ceiling: "round_half_even y \<le> \<lceil>y\<rceil>"
  by (simp add: round_half_even_def Let_def ceiling_altdef)

lemma rhe_ge: "of_int n \<le> y \<Longrightarrow> n \<le> round_half_even y"
  using rhe_floor[of y] by (simp add: le_floor_iff[symmetric])

lemma rhe_le: "y \<le> of_int n \<Longrightarrow> round_half_even y \<le> n"
  using rhe_ceiling[of y] by (simp add: ceiling_le_iff[symmetric])

lemma rhe_near:
  assumes "\<bar>y - of_int n\<bar> < 1/2"
  shows "round_half_even y = n"
proof (cases "of_int n \<le> y")
  case True
  then have "\<lfloor>y\<rfloor> = n" using assms by (simp add: floor_eq_iff)
  then show ?thesis using assms True by (simp add: round_half_even_def Let_def)
next
  case False
  then have "\<lfloor>y\<rfloor> = n - 1" using assms by (simp add: floor_eq_iff)
  then show ?thesis using assms False by (simp add: round_half_even_def Let_def)
qed

lemma ulp_pos: "0 < ulp p x"
  by (simp add: ulp_def)

lemma grid_quotient:
  assumes "i \<le> j"
  shows "(of_int c * 2 powr of_int j) / (2 powr of_int i) = (of_int (c * 2 ^ nat (j - i)) :: real)"
proof -
  have "(2::real) powr of_int j = 2 powr of_int (j - i) * 2 powr of_int i"
    by (simp add: powr_add[symmetric])
  moreover have "(2::real) powr of_int (j - i) = of_int (2 ^ nat (j - i))"
  proof -
    have "(of_int (j - i) :: real) = real (nat (j - i))" using assms by simp
    then have "(2::real) powr of_int (j - i) = 2 powr real (nat (j - i))" by (simp only:)
    also have "\<dots> = 2 ^ nat (j - i)" by (simp add: powr_realpow)
    finally show ?thesis by simp
  qed
  ultimately show ?thesis by simp
qed

lemma fl_le_grid:
  assumes "0 < x" "\<lfloor>log 2 x\<rfloor> + 1 - int p \<le> j" "x \<le> of_int c * 2 powr of_int j"
  shows "fl p x \<le> of_int c * 2 powr of_int j"
proof -
  define i where "i = \<lfloor>log 2 x\<rfloor> + 1 - int p"
  define u where "u = (2::real) powr of_int i"
  define m where "m = c * 2 ^ nat (j - i)"
  have u: "ulp p x = u" "0 < u" using assms(1) by (simp_all add: ulp_def u_def i_def)
  have q: "(of_int c * 2 powr of_int j) / u = of_int m"
    unfolding u_def m_def by (rule grid_quotient) (use assms(2) in \<open>simp add: i_def\<close>)
  have "x / u \<le> (of_int c * 2 powr of_int j) / u"
    using assms(3) u(2) by (simp add: divide_right_mono)
  then have "round_half_even (x / u) \<le> m" unfolding q by (rule rhe_le)
  then have "(of_int (round_half_even (x / u)) :: real) \<le> of_int m" by (simp only: of_int_le_iff)
  then have "u * of_int (round_half_even (x / u)) \<le> u * of_int m"
    using u(2) by (intro mult_left_mono) simp_all
  also have "u * of_int m = of_int c * 2 powr of_int j" using q u(2) by (simp add: field_simps)
  finally show ?thesis using assms(1) by (simp add: fl_def u(1))
qed

lemma fl_ge_grid:
  assumes "0 < x" "\<lfloor>log 2 x\<rfloor> + 1 - int p \<le> j" "of_int c * 2 powr of_int j \<le> x"
  shows "of_int c * 2 powr of_int j \<le> fl p x"
proof -
  define i where "i = \<lfloor>log 2 x\<rfloor> + 1 - int p"
  define u where "u = (2::real) powr of_int i"
  define m where "m = c * 2 ^ nat (j - i)"
  have u: "ulp p x = u" "0 < u" using assms(1) by (simp_all add: ulp_def u_def i_def)
  have q: "(of_int c * 2 powr of_int j) / u = of_int m"
    unfolding u_def m_def by (rule grid_quotient) (use assms(2) in \<open>simp add: i_def\<close>)
  have "(of_int c * 2 powr of_int j) / u \<le> x / u"
    using assms(3) u(2) by (simp add: divide_right_mono)
  then have "m \<le> round_half_even (x / u)" unfolding q by (rule rhe_ge)
  then have "(of_int m :: real) \<le> of_int (round_half_even (x / u))" by (simp only: of_int_le_iff)
  then have "u * of_int m \<le> u * of_int (round_half_even (x / u))"
    using u(2) by (intro mult_left_mono) simp_all
  moreover have "u * of_int m = of_int c * 2 powr of_int j" using q u(2) by (simp add: field_simps)
  ultimately show ?thesis using assms(1) by (simp add: fl_def u(1))
qed

lemma floor_log2_le:
  assumes "0 < x" "x < 2 powr of_int (k + 1)"
  shows "\<lfloor>log 2 x\<rfloor> \<le> k"
proof -
  have "log 2 x < of_int (k + 1)" using assms by (simp add: log_less_iff)
  then show ?thesis by (simp add: floor_le_iff)
qed

lemma fl_nonneg: "0 \<le> x \<Longrightarrow> 0 \<le> fl p x"
  using rhe_ge[of 0 "x / ulp p x"] ulp_pos[of p x] by (simp add: fl_def)

lemma fl_unit:
  assumes "0 \<le> x" "x \<le> 1" "1 \<le> p"
  shows "0 \<le> fl p x \<and> fl p x \<le> 1"
proof (cases "x = 0")
  case True
  then show ?thesis by (simp add: fl_def)
next
  case False
  then have pos: "0 < x" using assms(1) by simp
  have e: "\<lfloor>log 2 x\<rfloor> \<le> 0" by (rule floor_log2_le[OF pos]) (use assms(2) in simp)
  have g: "\<lfloor>log 2 x\<rfloor> + 1 - int p \<le> 0" using e assms(3) by linarith
  have b: "x \<le> of_int 1 * 2 powr of_int 0" using assms(2) by simp
  have "fl p x \<le> of_int 1 * 2 powr of_int 0"
    by (rule fl_le_grid[OF pos g b])
  then show ?thesis using fl_nonneg[OF assms(1)] by simp
qed

lemma fl_between:
  assumes "0 < x" "of_int a * 2 powr of_int j \<le> x" "x \<le> of_int b * 2 powr of_int j"
    "x < 2 powr of_int (k + 1)" "k + 1 - int p \<le> j"
  shows "of_int a * 2 powr of_int j \<le> fl p x \<and> fl p x \<le> of_int b * 2 powr of_int j"
proof -
  have "\<lfloor>log 2 x\<rfloor> \<le> k" by (rule floor_log2_le[OF assms(1,4)])
  then have g: "\<lfloor>log 2 x\<rfloor> + 1 - int p \<le> j" using assms(5) by simp
  show ?thesis using fl_ge_grid[OF assms(1) g assms(2)] fl_le_grid[OF assms(1) g assms(3)] by simp
qed

lemma fl_exact:
  assumes "0 < x" "x = of_int c * 2 powr of_int j" "x < 2 powr of_int (k + 1)" "k + 1 - int p \<le> j"
  shows "fl p x = x"
  using fl_between[of x c j c k p] assms by simp

lemma fl_zero [simp]: "fl p 0 = 0"
  by (simp add: fl_def)

lemma fl_one: "1 \<le> p \<Longrightarrow> fl p 1 = 1"
  by (rule fl_exact[of 1 1 0 0]) simp_all

lemma fl_two: "1 \<le> p \<Longrightarrow> fl p 2 = 2"
  by (rule fl_exact[of 2 1 1 1]) simp_all

lemma fl_three: "2 \<le> p \<Longrightarrow> fl p 3 = 3"
  by (rule fl_exact[of 3 3 0 1]) simp_all

lemma arms_value_range:
  assumes "2 \<le> p" "0 \<le> P_CW + P_ACW" "P_CW + P_ACW \<le> 1"
  shows "2 \<le> arms_value p P_CW P_ACW \<and> arms_value p P_CW P_ACW \<le> 6"
proof -
  define s where "s = fl 24 (P_CW + P_ACW)"
  have s: "0 \<le> s" "s \<le> 1" using fl_unit[OF assms(2,3), of 24] by (simp_all add: s_def)
  define v where "v = fl p (4 * s)"
  have v: "0 \<le> v \<and> v \<le> 4"
  proof (cases "s = 0")
    case True
    then show ?thesis by (simp add: v_def)
  next
    case False
    then have pos: "0 < 4 * s" using s(1) by simp
    have "of_int 0 * 2 powr of_int 2 \<le> fl p (4 * s) \<and> fl p (4 * s) \<le> of_int 1 * 2 powr of_int 2"
      by (rule fl_between[OF pos, where k = 2]) (use s assms(1) in simp_all)
    then show ?thesis by (simp add: v_def)
  qed
  have pos: "0 < 2 + v" using v by simp
  have "of_int 1 * 2 powr of_int 1 \<le> fl p (2 + v) \<and> fl p (2 + v) \<le> of_int 3 * 2 powr of_int 1"
    by (rule fl_between[OF pos, where k = 2]) (use v assms(1) in simp_all)
  then show ?thesis by (simp add: arms_value_def s_def v_def)
qed

lemma num_arms_range:
  assumes "2 \<le> p" "0 \<le> P_CW + P_ACW" "P_CW + P_ACW \<le> 1"
  shows "2 \<le> num_arms_of p P_CW P_ACW \<and> num_arms_of p P_CW P_ACW \<le> 6"
proof -
  from arms_value_range[OF assms] have r: "2 \<le> arms_value p P_CW P_ACW" "arms_value p P_CW P_ACW \<le> 6"
    by simp_all
  have "(2::int) \<le> \<lfloor>arms_value p P_CW P_ACW\<rfloor>" using r(1) by (simp add: le_floor_iff)
  moreover have "\<lfloor>arms_value p P_CW P_ACW\<rfloor> \<le> (6::int)" using r(2) by (simp add: floor_le_iff)
  ultimately show ?thesis using r(1) by (simp add: num_arms_of_def py_int_def)
qed

lemma arms_zero: "2 \<le> p \<Longrightarrow> num_arms_of p 0 0 = 2"
  by (simp add: num_arms_of_def arms_value_def fl_two py_int_def)

lemma fl24_boundary: "fl 24 (1/4 - 1/2^26 + 3/2^28) = 1/4"
proof -
  define x :: real where "x = 1/4 - 1/2^26 + 3/2^28"
  have pos: "0 < x" by (simp add: x_def)
  have e: "\<lfloor>log 2 x\<rfloor> = - 3"
    unfolding floor_log_eq_powr_iff[OF pos, of 2, simplified]
    by (simp add: x_def powr_minus_divide)
  have u: "ulp 24 x = 1 / 2 ^ 26" using pos by (simp add: ulp_def e powr_minus_divide)
  have q: "x / ulp 24 x = 2 ^ 24 - 1 / 4" unfolding u by (simp add: x_def)
  have "round_half_even (x / ulp 24 x) = 2 ^ 24"
    unfolding q by (rule rhe_near) simp
  then have "fl 24 x = 1/4" using pos by (simp add: fl_def u)
  then show ?thesis by (simp add: x_def)
qed

lemma arms_boundary:
  assumes "2 \<le> p"
  shows "num_arms_of p (1/4 - 1/2^26) (3/2^28) = 3"
    and "\<lfloor>2 + 4 * ((1/4 - 1/2^26) + 3/2^28) :: real\<rfloor> = 2"
proof -
  have "arms_value p (1/4 - 1/2^26) (3/2^28) = fl p (2 + fl p (4 * (1/4)))"
    by (simp only: arms_value_def fl24_boundary)
  also have "\<dots> = fl p (2 + fl p 1)" by simp
  also have "\<dots> = fl p 3" using assms by (simp add: fl_one)
  also have "\<dots> = 3" using assms by (rule fl_three)
  finally show "num_arms_of p (1/4 - 1/2^26) (3/2^28) = 3"
    by (simp add: num_arms_of_def py_int_def)
  show "\<lfloor>2 + 4 * ((1/4 - 1/2^26) + 3/2^28) :: real\<rfloor> = 2"
    by (simp add: floor_eq_iff)
qed

lemma fl_three_quarters: "fl 24 (3/4) = 3/4"
  by (rule fl_exact[of "3/4" 3 "- 2" "- 1"]) (simp_all add: powr_minus_divide)

lemma fl_five: "3 \<le> p \<Longrightarrow> fl p 5 = 5"
  by (rule fl_exact[of 5 5 0 2]) simp_all

subsection \<open>The renderer draws that many arms\<close>

lemma draw_arms_length:
  "draw_arms r theta k b arms w = (ps, w') \<Longrightarrow> length ps = length arms"
  by (induction arms arbitrary: w ps w') (auto simp: Let_def split: prod.splits)

lemma map_of_write_file [simp]: "map_of (files (write_file path f w)) path = Some f"
  by (simp add: write_file_def)

lemma draw_result:
  assumes "length features = 9"
  shows "\<exists>arms w'. draw_spiral_galaxy_features step features w = Inr w' \<and>
           map_of (files w') (step_filename step) = Some (Pic (Still (GalaxyPlot arms))) \<and>
           length arms = nat (num_arms_of (np_scalar_prec w) (features ! 1) (features ! 2))"
proof -
  let ?k = "num_arms_of (np_scalar_prec w) (features ! 1) (features ! 2)"
  let ?r = "linspace_values 0.05 1.0 num_stars"
  let ?th = "map (\<lambda>r. r * (0.5 + 3 * (1 - features ! 0)) * pi + real step * 0.3) ?r"
  let ?w0 = "w\<lparr>events := events w @ [DrawCall step features]\<rparr>"
  obtain arms w1 where d: "draw_arms ?r ?th ?k (0.5 + features ! 6) [0..<nat ?k] ?w0 = (arms, w1)"
    by (cases "draw_arms ?r ?th ?k (0.5 + features ! 6) [0..<nat ?k] ?w0")
  have len: "length arms = nat ?k"
    using draw_arms_length[OF d] by simp
  have "draw_spiral_galaxy_features step features w =
          Inr (write_file (step_filename step) (Pic (Still (GalaxyPlot arms))) w1)"
    using assms d by (simp add: draw_spiral_galaxy_features_def Let_def)
  then show ?thesis using len by (intro exI[of _ arms] exI) auto
qed

text \<open>
  Claim C4, as the code has it. The renderer takes the number of arms as the
  floating-point value of \<open>2 + 4 (P_CW + P_ACW)\<close> cut to an integer, and draws that many
  arms: the sum of the two features is rounded to float32 and the product and the outer
  sum to NumPy's scalar type, so the count can differ from the exact formula rounded
  down where a sum falls just below a number of the format. The cut rounds down whenever
  the value is not negative. For probability inputs with \<open>P_CW + P_ACW\<close> between 0 and 1
  the count lies between 2 and 6, with no clamp in the code. For the synthetic row
  \<open>[0.9, 0, 0, 0, 0, 0.1, 0.8, 0.9, 0.8]\<close> the count is 2.
\<close>

theorem renderer_arm_count:
  "(0 \<le> arms_value p P_CW P_ACW \<longrightarrow>
      num_arms_of p P_CW P_ACW = \<lfloor>arms_value p P_CW P_ACW\<rfloor>) \<and>
   (2 \<le> p \<and> 0 \<le> P_CW + P_ACW \<and> P_CW + P_ACW \<le> 1 \<longrightarrow>
      2 \<le> num_arms_of p P_CW P_ACW \<and> num_arms_of p P_CW P_ACW \<le> 6) \<and>
   (length features = 9 \<longrightarrow>
      (\<exists>arms w'. draw_spiral_galaxy_features step features w = Inr w' \<and>
         map_of (files w') (step_filename step) = Some (Pic (Still (GalaxyPlot arms))) \<and>
         length arms = nat (num_arms_of (np_scalar_prec w) (features ! 1) (features ! 2)))) \<and>
   (2 \<le> p \<longrightarrow> num_arms_of p (synthetic_row ! 1) (synthetic_row ! 2) = 2)"
proof -
  have f: "0 \<le> arms_value p P_CW P_ACW \<longrightarrow>
      num_arms_of p P_CW P_ACW = \<lfloor>arms_value p P_CW P_ACW\<rfloor>"
    by (simp add: num_arms_of_def py_int_def)
  have s: "2 \<le> p \<longrightarrow> num_arms_of p (synthetic_row ! 1) (synthetic_row ! 2) = 2"
    by (simp add: synthetic_row_def arms_zero)
  show ?thesis
    using f num_arms_range[of p P_CW P_ACW] draw_result[of features step w] s
    by blast
qed

theorem renderer_arm_count_witness:
  "(0 :: real) \<le> arms_value 24 0.25 0.5 \<and> (2 :: nat) \<le> 24 \<and> (0 :: real) \<le> 0.25 + 0.5 \<and>
   (0.25 + 0.5 :: real) \<le> 1 \<and> length synthetic_row = 9 \<and>
   num_arms_of 24 0.25 0.5 = 5 \<and>
   num_arms_of 24 (synthetic_row ! 1) (synthetic_row ! 2) = 2 \<and>
   (\<exists>arms w'. draw_spiral_galaxy_features 0 synthetic_row empty_world = Inr w' \<and>
      map_of (files w') (step_filename 0) = Some (Pic (Still (GalaxyPlot arms))) \<and>
      length arms = 2)"
proof -
  have v: "arms_value 24 0.25 0.5 = 5"
  proof -
    have "arms_value 24 0.25 0.5 = fl 24 (2 + fl 24 (4 * fl 24 (3/4)))"
      by (simp add: arms_value_def)
    also have "\<dots> = fl 24 (2 + fl 24 3)" by (simp add: fl_three_quarters)
    also have "\<dots> = fl 24 5" by (simp add: fl_three)
    also have "\<dots> = 5" by (simp add: fl_five)
    finally show ?thesis .
  qed
  have h1: "(0 :: real) \<le> arms_value 24 0.25 0.5" unfolding v by simp
  have h2: "(2 :: nat) \<le> 24" "(0 :: real) \<le> 0.25 + 0.5"
    "(0.25 + 0.5 :: real) \<le> 1" "length synthetic_row = 9"
    by (simp_all add: synthetic_row_def)
  note h = h1 h2
  have p: "np_scalar_prec empty_world = 24" by (simp add: empty_world_def)
  from renderer_arm_count[of 24 "0.25" "0.5" synthetic_row 0 empty_world] h
  have a: "num_arms_of 24 0.25 0.5 = \<lfloor>arms_value 24 0.25 0.5\<rfloor>"
    and b: "num_arms_of 24 (synthetic_row ! 1) (synthetic_row ! 2) = 2"
    and c: "\<exists>arms w'. draw_spiral_galaxy_features 0 synthetic_row empty_world = Inr w' \<and>
         map_of (files w') (step_filename 0) = Some (Pic (Still (GalaxyPlot arms))) \<and>
         length arms = nat (num_arms_of (np_scalar_prec empty_world) (synthetic_row ! 1) (synthetic_row ! 2))"
    by blast+
  have a': "num_arms_of 24 0.25 0.5 = 5" unfolding a v by simp
  from c have c': "\<exists>arms w'. draw_spiral_galaxy_features 0 synthetic_row empty_world = Inr w' \<and>
      map_of (files w') (step_filename 0) = Some (Pic (Still (GalaxyPlot arms))) \<and>
      length arms = 2"
    unfolding p b by simp
  show ?thesis using h a' b c' by blast
qed

text \<open>
  Claim C4 as the specification words it, with the exact formula rounded down, fails on
  the code: for the float32 features \<open>P_CW = 1/4 - 1/2^26\<close> and \<open>P_ACW = 3/2^28\<close> the
  float32 sum is \<open>1/4\<close>, so the renderer draws 3 arms under either NumPy, where the
  exact formula gives \<open>3 - 1/2^26\<close>, rounded down 2.
\<close>

theorem renderer_arm_count_counterexample:
  "num_arms_of 24 (1/4 - 1/2^26) (3/2^28) = 3 \<and>
   num_arms_of 53 (1/4 - 1/2^26) (3/2^28) = 3 \<and>
   \<lfloor>2 + 4 * ((1/4 - 1/2^26) + 3/2^28) :: real\<rfloor> = 2"
  using arms_boundary[of 24] arms_boundary[of 53] by simp

section \<open>The evolution simulator: what a run logs\<close>

lemma draw_arms_frame:
  "draw_arms r theta k b arms w = (ps, w') \<Longrightarrow>
     events w' = events w \<and> grad_enabled w' = grad_enabled w \<and> stdout w' = stdout w \<and>
     files w' = files w"
  by (induction arms arbitrary: w ps w')
     (auto simp: Let_def np_random_normal_def split: prod.splits)

lemma draw_wrong_length:
  "length row \<noteq> 9 \<Longrightarrow> draw_spiral_galaxy_features i row w = Inl ValueError"
  by (simp add: draw_spiral_galaxy_features_def)

lemma draw_events:
  assumes "length row = 9"
  shows "\<exists>w'. draw_spiral_galaxy_features i row w = Inr w' \<and>
           events w' = events w @ [DrawCall i row] \<and> grad_enabled w' = grad_enabled w \<and>
           stdout w' = stdout w"
proof -
  let ?k = "num_arms_of (np_scalar_prec w) (row ! 1) (row ! 2)"
  let ?r = "linspace_values 0.05 1.0 num_stars"
  let ?th = "map (\<lambda>r. r * (0.5 + 3 * (1 - row ! 0)) * pi + real i * 0.3) ?r"
  let ?w0 = "w\<lparr>events := events w @ [DrawCall i row]\<rparr>"
  obtain arms w1 where d: "draw_arms ?r ?th ?k (0.5 + row ! 6) [0..<nat ?k] ?w0 = (arms, w1)"
    by (cases "draw_arms ?r ?th ?k (0.5 + row ! 6) [0..<nat ?k] ?w0")
  have "draw_spiral_galaxy_features i row w =
          Inr (write_file (step_filename i) (Pic (Still (GalaxyPlot arms))) w1)"
    using assms d by (simp add: draw_spiral_galaxy_features_def Let_def)
  then show ?thesis using draw_arms_frame[OF d] by (simp add: write_file_def)
qed

lemma evolution_loop_events:
  "map_sum (\<lambda>e. e) (\<lambda>w'. (events w', grad_enabled w', stdout w')) (evolution_loop pn start its w) =
   map_sum (\<lambda>e. e) (\<lambda>evs. (events w @ evs, grad_enabled w, stdout w))
     (loop_events pn start (grad_enabled w) its)"
proof (induction its arbitrary: w)
  case Nil
  then show ?case by simp
next
  case (Cons it its)
  obtain i t where it: "it = (i, t)" by (cases it)
  show ?case
  proof (cases "expand (T1 t) (length start)")
    case (Inl e)
    then show ?thesis by (simp add: it)
  next
    case (Inr t_input)
    show ?thesis
    proof (cases "GalaxyPINN_forward pn start t_input")
      case (Inl e)
      then show ?thesis using Inr by (simp add: it call_pinn_def)
    next
      case fw: (Inr evolved)
      let ?w1 = "w\<lparr>events := events w @ [PinnCall (grad_enabled w) start t_input]\<rparr>"
      have cp: "call_pinn pn start t_input w = Inr (evolved, ?w1)"
        using fw by (simp add: call_pinn_def)
      show ?thesis
      proof (cases evolved)
        case Nil
        then show ?thesis using Inr fw cp by (simp add: it first_row_def)
      next
        case (Cons row rows)
        show ?thesis
        proof (cases "length row = 9")
          case False
          then show ?thesis using Inr fw cp Cons
            by (simp add: it first_row_def draw_wrong_length)
        next
          case True
          from draw_events[OF True, of i ?w1] obtain w2 where
            w2: "draw_spiral_galaxy_features i row ?w1 = Inr w2"
              "events w2 = events ?w1 @ [DrawCall i row]" "grad_enabled w2 = grad_enabled ?w1"
              "stdout w2 = stdout ?w1"
            by blast
          have ih: "map_sum (\<lambda>e. e) (\<lambda>w'. (events w', grad_enabled w', stdout w')) (evolution_loop pn start its w2) =
             map_sum (\<lambda>e. e) (\<lambda>evs. (events w2 @ evs, grad_enabled w2, stdout w2))
               (loop_events pn start (grad_enabled w2) its)"
            by (rule Cons.IH)
          show ?thesis
            using Inr fw cp Cons True w2 ih
            by (cases "loop_events pn start (grad_enabled w) its")
               (simp_all add: it first_row_def)
        qed
      qed
    qed
  qed
qed

lemma map_sum_eq_Inl [simp]: "Inl a = map_sum (\<lambda>e. e) f r \<longleftrightarrow> r = Inl a"
  by (cases r) auto

lemma map_sum_eq_Inr [simp]: "Inr y = map_sum (\<lambda>e. e) f r \<longleftrightarrow> (\<exists>z. r = Inr z \<and> y = f z)"
  by (cases r) auto

lemma map_sum_bind:
  "map_sum (\<lambda>e. e) f (bind_result r g) = bind_result r (\<lambda>y. map_sum (\<lambda>e. e) f (g y))"
  by (cases r) (simp_all add: bind_result_def)

lemma simulate_events:
  "map_sum (\<lambda>e. e) (\<lambda>w'. (events w', grad_enabled w', stdout w')) (simulate_evolution pn v start steps w) =
   bind_result (linspace 0 1 (case steps of None \<Rightarrow> default_steps | Some n \<Rightarrow> n)) (\<lambda>ts.
     map_sum (\<lambda>e. e) (\<lambda>evs. (events w @ evs, grad_enabled w, stdout w))
       (loop_events pn start False (enumerate 0 (unsqueeze1 ts))))"
proof (cases "linspace 0 1 (case steps of None \<Rightarrow> default_steps | Some n \<Rightarrow> n)")
  case (Inl e)
  then show ?thesis by (simp add: simulate_evolution_def bind_result_def)
next
  case (Inr ts)
  let ?w0 = "w\<lparr>grad_enabled := False\<rparr>"
  from evolution_loop_events[of pn start "enumerate 0 (unsqueeze1 ts)" ?w0]
  show ?thesis using Inr
    by (cases "evolution_loop pn start (enumerate 0 (unsqueeze1 ts)) ?w0";
        cases "loop_events pn start False (enumerate 0 (unsqueeze1 ts))")
       (simp_all add: simulate_evolution_def bind_result_def no_grad_def Let_def)
qed

lemma cat1_rect:
  assumes "rect n i x" "rect n 1 tm"
  shows "\<exists>xt. cat1 x (T2 tm) = Inr xt \<and> rect n (i + 1) xt"
  using assms by (auto simp: rect_def list_all_iff set_zip)

lemma forward_T2_shape:
  assumes "shape_pinn i h pn" "rect n i x" "rect n 1 tm"
  shows "\<exists>y. GalaxyPINN_forward pn x (T2 tm) = Inr y \<and> rect n i y"
proof -
  from cat1_rect[OF assms(2,3)] obtain xt where
    xt: "cat1 x (T2 tm) = Inr xt" "rect n (i + 1) xt" by blast
  from net_shape[OF assms(1) xt(2)] obtain y where "net pn xt = Inr y" "rect n i y" by blast
  then show ?thesis using xt by (simp add: GalaxyPINN_forward_def)
qed

lemma evolved_at_ok:
  assumes "shape_pinn 9 h pn" "rect b 9 start" "0 < b"
  shows "\<exists>Y row. GalaxyPINN_forward pn start (T2 (replicate b [t])) = Inr Y \<and>
           first_row Y = Inr row \<and> evolved_at pn start t = Inr row \<and> length row = 9"
proof -
  have r: "rect b 1 (replicate b [t])" by (simp add: rect_def list_all_iff)
  from forward_T2_shape[OF assms(1,2) r] obtain Y where
    Y: "GalaxyPINN_forward pn start (T2 (replicate b [t])) = Inr Y" "rect b 9 Y" by blast
  from Y(2) assms(3) obtain row rows where c: "Y = row # rows" "length row = 9"
    by (cases Y) (auto simp: rect_def)
  have "length start = b" using assms(2) by (simp add: rect_def)
  then show ?thesis using Y c by (simp add: evolved_at_def first_row_def)
qed

lemma loop_events_enumerate:
  assumes "shape_pinn 9 h pn" "rect b 9 start" "0 < b"
  shows "loop_events pn start g (enumerate k (unsqueeze1 ts)) =
           Inr (concat (map (\<lambda>(i, t). [PinnCall g start (T2 (replicate b [t])),
                                      DrawCall i (projr (evolved_at pn start t))])
                        (enumerate k ts)))"
proof (induction ts arbitrary: k)
  case Nil
  then show ?case by (simp add: unsqueeze1_def)
next
  case (Cons t ts)
  from evolved_at_ok[OF assms, of t] obtain Y row where
    Y: "GalaxyPINN_forward pn start (T2 (replicate b [t])) = Inr Y" "first_row Y = Inr row"
       "evolved_at pn start t = Inr row" "length row = 9" by blast
  have b: "length start = b" using assms(2) by (simp add: rect_def)
  have ih: "loop_events pn start g (enumerate (Suc k) (unsqueeze1 ts)) =
           Inr (concat (map (\<lambda>(i, t). [PinnCall g start (T2 (replicate b [t])),
                                      DrawCall i (projr (evolved_at pn start t))])
                        (enumerate (Suc k) ts)))"
    by (rule Cons.IH)
  have u: "unsqueeze1 (t # ts) = [t] # unsqueeze1 ts" by (simp add: unsqueeze1_def)
  show ?case unfolding u using Y b ih by simp
qed

lemma linspace_unit:
  assumes "2 \<le> n"
  shows "linspace 0 1 n = Inr (map (\<lambda>i. real i / real (nat n - 1)) [0..<nat n])"
proof -
  have "nat n \<noteq> 1" "\<not> n < 0" using assms by auto
  then show ?thesis by (simp add: linspace_def linspace_values_def)
qed

lemma enumerate_map_upt: "enumerate 0 (map f [0..<n]) = map (\<lambda>i. (i, f i)) [0..<n]"
  by (simp add: enumerate_eq_zip zip_map2 zip_same_conv_map)

lemma simulate_evolution_run:
  assumes "shape_pinn 9 h pn" "rect b 9 start" "0 < b" "2 \<le> n"
  shows "(\<exists>w' rows. simulate_evolution pn v start (Some n) w = Inr w' \<and>
           length rows = nat n \<and>
           (\<forall>i<nat n. evolved_at pn start (real i / real (nat n - 1)) = Inr (rows ! i) \<and>
                      length (rows ! i) = 9) \<and>
           new_events w w' =
             concat (map (\<lambda>i. [PinnCall False start (T2 (replicate b [real i / real (nat n - 1)])),
                               DrawCall i (rows ! i)]) [0..<nat n]) \<and>
           grad_enabled w' = grad_enabled w) \<and>
         real 0 / real (nat n - 1) = 0 \<and> real (nat n - 1) / real (nat n - 1) = 1 \<and>
         simulate_evolution pn v start None w = simulate_evolution pn v start (Some 15) w"
proof -
  let ?tt = "\<lambda>i. real i / real (nat n - 1)"
  let ?rows = "map (\<lambda>i. projr (evolved_at pn start (?tt i))) [0..<nat n]"
  let ?evs = "concat (map (\<lambda>i. [PinnCall False start (T2 (replicate b [?tt i])),
                               DrawCall i (?rows ! i)]) [0..<nat n])"
  have le: "loop_events pn start False (enumerate 0 (unsqueeze1 (map ?tt [0..<nat n]))) = Inr ?evs"
  proof -
    have eq: "map (\<lambda>i. [PinnCall False start (T2 (replicate b [?tt i])),
                        DrawCall i (projr (evolved_at pn start (?tt i)))]) [0..<nat n] =
              map (\<lambda>i. [PinnCall False start (T2 (replicate b [?tt i])),
                        DrawCall i (?rows ! i)]) [0..<nat n]"
      by (rule map_cong) auto
    have "loop_events pn start False (enumerate 0 (unsqueeze1 (map ?tt [0..<nat n]))) =
          Inr (concat (map (\<lambda>i. [PinnCall False start (T2 (replicate b [?tt i])),
                        DrawCall i (projr (evolved_at pn start (?tt i)))]) [0..<nat n]))"
      unfolding loop_events_enumerate[OF assms(1-3)] enumerate_map_upt
      by (simp add: comp_def)
    then show ?thesis by (simp only: eq)
  qed
  have "map_sum (\<lambda>e. e) (\<lambda>w'. (events w', grad_enabled w', stdout w'))
          (simulate_evolution pn v start (Some n) w) =
        Inr (events w @ ?evs, grad_enabled w, stdout w)"
    by (simp only: simulate_events option.case linspace_unit[OF assms(4)] bind_result_simps le
          map_sum.simps)
  then obtain w' where w': "simulate_evolution pn v start (Some n) w = Inr w'"
      "events w' = events w @ ?evs" "grad_enabled w' = grad_enabled w"
    by (cases "simulate_evolution pn v start (Some n) w") auto
  have rows: "\<forall>i<nat n. evolved_at pn start (?tt i) = Inr (?rows ! i) \<and> length (?rows ! i) = 9"
  proof (intro allI impI)
    fix i assume i: "i < nat n"
    from evolved_at_ok[OF assms(1-3), of "?tt i"] obtain row where
      "evolved_at pn start (?tt i) = Inr row" "length row = 9" by blast
    then show "evolved_at pn start (?tt i) = Inr (?rows ! i) \<and> length (?rows ! i) = 9"
      using i by simp
  qed
  have ends: "real 0 / real (nat n - 1) = 0 \<and> real (nat n - 1) / real (nat n - 1) = 1"
    using assms(4) by auto
  have dflt: "simulate_evolution pn v start None w = simulate_evolution pn v start (Some 15) w"
    by (simp add: simulate_evolution_def default_steps_def)
  have "new_events w w' = ?evs" using w'(2) by (simp add: new_events_def)
  then show ?thesis using w' rows ends dflt
    by (intro conjI exI[of _ w'] exI[of _ ?rows]) auto
qed

text \<open>
  Claim C5. Two runs of \<^verbatim>\<open>simulate_evolution\<close> with the same PINN, the same starting
  state and the same step count end alike (both raise the same exception, or both
  return) and log the same sequence of PINN evaluations and of vectors handed to the
  renderer, whatever the two worlds are: the draws of the random generator, which only
  the renderer's jitter consumes, the files on disk and the VAE passed along have no
  influence on the evolved feature vectors.
\<close>

theorem simulation_is_deterministic:
  "map_sum (\<lambda>e. e) (new_events w1) (simulate_evolution pn v1 start steps w1) =
   map_sum (\<lambda>e. e) (new_events w2) (simulate_evolution pn v2 start steps w2)"
proof -
  have "\<And>v w. map_sum (\<lambda>e. e) (new_events w) (simulate_evolution pn v start steps w) =
     bind_result (linspace 0 1 (case steps of None \<Rightarrow> default_steps | Some n \<Rightarrow> n)) (\<lambda>ts.
       loop_events pn start False (enumerate 0 (unsqueeze1 ts)))"
  proof -
    fix v w
    show "map_sum (\<lambda>e. e) (new_events w) (simulate_evolution pn v start steps w) =
     bind_result (linspace 0 1 (case steps of None \<Rightarrow> default_steps | Some n \<Rightarrow> n)) (\<lambda>ts.
       loop_events pn start False (enumerate 0 (unsqueeze1 ts)))"
      using simulate_events[of pn v start steps w]
      by (cases "simulate_evolution pn v start steps w";
          cases "linspace 0 1 (case steps of None \<Rightarrow> default_steps | Some n \<Rightarrow> n)")
         (auto simp: new_events_def bind_result_def)
  qed
  then show ?thesis by simp
qed

theorem simulation_is_deterministic_witness:
  "\<exists>w1' w2'.
     simulate_evolution zero_pinn zero_vae [synthetic_row] (Some 3) empty_world = Inr w1' \<and>
     simulate_evolution zero_pinn zero_vae [synthetic_row] (Some 3)
       (empty_world\<lparr>np_stream := (\<lambda>k. real k), np_pos := 7\<rparr>) = Inr w2' \<and>
     new_events empty_world w1' =
       new_events (empty_world\<lparr>np_stream := (\<lambda>k. real k), np_pos := 7\<rparr>) w2'"
proof -
  let ?w2 = "empty_world\<lparr>np_stream := (\<lambda>k. real k), np_pos := 7\<rparr>"
  have sh: "shape_pinn 9 32 zero_pinn" "rect 1 9 [synthetic_row]" "0 < (1 :: nat)" "2 \<le> (3 :: int)"
    by (simp_all add: rect_def synthetic_row_def)
  from simulate_evolution_run[OF sh, of zero_vae empty_world] obtain w1' where
    a: "simulate_evolution zero_pinn zero_vae [synthetic_row] (Some 3) empty_world = Inr w1'"
    by blast
  from simulate_evolution_run[OF sh, of zero_vae ?w2] obtain w2' where
    b: "simulate_evolution zero_pinn zero_vae [synthetic_row] (Some 3) ?w2 = Inr w2'"
    by blast
  from simulation_is_deterministic[of empty_world zero_pinn zero_vae "[synthetic_row]" "Some 3"
      ?w2 zero_vae] a b
  have "new_events empty_world w1' = new_events ?w2 w2'" by simp
  then show ?thesis using a b by blast
qed

text \<open>
  Claim C7. For a step count \<open>n\<close> of at least 2, a PINN with the shapes of the default
  constructor and a non-empty starting batch of nine features,
  \<^verbatim>\<open>simulate_evolution\<close> returns, having evaluated the PINN exactly \<open>n\<close> times, at the
  time values \<open>i / (n - 1)\<close> for \<open>i = 0, \<dots>, n - 1\<close> (the first is 0, the last is 1), each
  time on the unchanged starting state and with gradient tracking off, and having handed
  the first row of each result, a vector of nine entries, to the renderer together with
  the index \<open>i\<close>. When the step count is omitted it is 15.
\<close>

theorem simulate_evolution_steps:
  assumes "shape_pinn 9 h pn" "rect b 9 start" "0 < b" "2 \<le> n"
  shows "(\<exists>w' rows. simulate_evolution pn v start (Some n) w = Inr w' \<and>
           length rows = nat n \<and>
           (\<forall>i<nat n. evolved_at pn start (real i / real (nat n - 1)) = Inr (rows ! i) \<and>
                      length (rows ! i) = 9) \<and>
           new_events w w' =
             concat (map (\<lambda>i. [PinnCall False start (T2 (replicate b [real i / real (nat n - 1)])),
                               DrawCall i (rows ! i)]) [0..<nat n]) \<and>
           grad_enabled w' = grad_enabled w) \<and>
         real 0 / real (nat n - 1) = 0 \<and> real (nat n - 1) / real (nat n - 1) = 1 \<and>
         simulate_evolution pn v start None w = simulate_evolution pn v start (Some 15) w"
  using simulate_evolution_run[OF assms] by blast

theorem simulate_evolution_steps_witness:
  "shape_pinn 9 32 zero_pinn \<and> rect 1 9 [synthetic_row] \<and> 0 < (1 :: nat) \<and> 2 \<le> (3 :: int) \<and>
   (\<exists>w' rows. simulate_evolution zero_pinn zero_vae [synthetic_row] (Some 3) empty_world = Inr w' \<and>
      length rows = 3 \<and>
      new_events empty_world w' =
        [PinnCall False [synthetic_row] (T2 [[0]]), DrawCall 0 (rows ! 0),
         PinnCall False [synthetic_row] (T2 [[1 / 2]]), DrawCall 1 (rows ! 1),
         PinnCall False [synthetic_row] (T2 [[1]]), DrawCall 2 (rows ! 2)] \<and>
      grad_enabled w' = True) \<and>
   simulate_evolution zero_pinn zero_vae [synthetic_row] None empty_world =
     simulate_evolution zero_pinn zero_vae [synthetic_row] (Some 15) empty_world"
proof -
  have sh: "shape_pinn 9 32 zero_pinn" "rect 1 9 [synthetic_row]" "0 < (1 :: nat)" "2 \<le> (3 :: int)"
    by (simp_all add: rect_def synthetic_row_def)
  have u: "[0..<nat 3] = [0, 1, 2]" by (simp add: upt_rec)
  from simulate_evolution_steps[OF sh, of zero_vae empty_world] obtain w' rows where
    r: "simulate_evolution zero_pinn zero_vae [synthetic_row] (Some 3) empty_world = Inr w'"
       "length rows = nat 3"
       "new_events empty_world w' =
          concat (map (\<lambda>i. [PinnCall False [synthetic_row] (T2 (replicate 1 [real i / real (nat 3 - 1)])),
                            DrawCall i (rows ! i)]) [0..<nat 3])"
       "grad_enabled w' = grad_enabled empty_world"
     and d: "simulate_evolution zero_pinn zero_vae [synthetic_row] None empty_world =
       simulate_evolution zero_pinn zero_vae [synthetic_row] (Some 15) empty_world"
    by blast
  have "new_events empty_world w' =
        [PinnCall False [synthetic_row] (T2 [[0]]), DrawCall 0 (rows ! 0),
         PinnCall False [synthetic_row] (T2 [[1 / 2]]), DrawCall 1 (rows ! 1),
         PinnCall False [synthetic_row] (T2 [[1]]), DrawCall 2 (rows ! 2)]"
    unfolding r(3) u by simp
  moreover have "grad_enabled w' = True" using r(4) by (simp add: empty_world_def)
  ultimately show ?thesis using sh r(1,2) d by (intro conjI exI[of _ w'] exI[of _ rows]) auto
qed

section \<open>The GIF is guarded against an empty list\<close>












section \<open>The evaluation records\<close>

lemma mean_nonneg: "(\<And>x. x \<in> set xs \<Longrightarrow> 0 \<le> x) \<Longrightarrow> mean xs = Fin r \<Longrightarrow> 0 \<le> r"
  by (auto simp: mean_def sum_list_nonneg split: if_splits)

lemma MSELoss_nonneg: "MSELoss a b = Fin r \<Longrightarrow> 0 \<le> r"
  unfolding MSELoss_def by (erule mean_nonneg[rotated]) (auto simp: set_zip)

lemma rmse_of_MSELoss: "rmse_is_sqrt_mse (MSELoss a b) (np_sqrt (MSELoss a b))"
  using MSELoss_nonneg[of a b]
  by (cases "MSELoss a b") (auto simp: rmse_is_sqrt_mse_def)

lemma concat_map2_nonempty:
  assumes "rect n m A" "rect n m B" "0 < n" "0 < m"
  shows "concat (map2 (map2 f) A B) \<noteq> []"
proof -
  obtain a A' where A: "A = a # A'" "length a = m" using assms(1,3) by (cases A) (auto simp: rect_def)
  obtain b B' where B: "B = b # B'" "length b = m" using assms(2,3) by (cases B) (auto simp: rect_def)
  obtain x a' where a: "a = x # a'" using A(2) assms(4) by (cases a) auto
  obtain y b' where b: "b = y # b'" using B(2) assms(4) by (cases b) auto
  show ?thesis by (simp add: A B a b)
qed

lemma MSELoss_fin:
  assumes "rect n m A" "rect n m B" "0 < n" "0 < m"
  shows "\<exists>r. MSELoss A B = Fin r \<and> 0 \<le> r"
proof -
  have "concat (map2 (map2 (\<lambda>a b. (a - b)\<^sup>2)) A B) \<noteq> []"
    by (rule concat_map2_nonempty[OF assms])
  then obtain r where "MSELoss A B = Fin r"
    unfolding MSELoss_def mean_def by (simp only: if_False)
  then show ?thesis using MSELoss_nonneg by blast
qed

lemma binarize_length: "rect n m X \<Longrightarrow> length (binarize th X) = n * m"
proof (induction X arbitrary: n)
  case Nil
  then show ?case by (simp add: binarize_def rect_def)
next
  case (Cons x X)
  then obtain k where k: "n = Suc k" "rect k m X" "length x = m" by (auto simp: rect_def)
  from Cons.IH[OF k(2)] show ?case using k by (simp add: binarize_def)
qed

lemma accuracy_fin:
  assumes "length yt = length yp" "yt \<noteq> []"
  shows "\<exists>r. accuracy_score yt yp = Fin r"
  using assms by (cases yt; cases yp) (auto simp: accuracy_score_def mean_def)

lemma f1_fin: "\<exists>r. f1_score_micro yt yp = Fin r"
  by (simp add: f1_score_micro_def Let_def)

lemma call_pinn_broadcast:
  assumes "shape_pinn 9 h pn" "rect n 9 data"
  shows "\<exists>y. call_pinn pn data (T2 (replicate n [t])) w =
               Inr (y, w\<lparr>events := events w @ [PinnCall (grad_enabled w) data (T2 (replicate n [t]))]\<rparr>) \<and>
             rect n 9 y"
proof -
  have r: "rect n 1 (replicate n [t])" by (simp add: rect_def list_all_iff)
  from forward_T2_shape[OF assms r] show ?thesis by (auto simp: call_pinn_def)
qed

lemma record_finite:
  assumes "rect n 9 predictions" "rect n 9 data" "0 < n"
  shows "finite_record t
           [(''t'', Fin t), (''MSE'', MSELoss predictions data),
            (''RMSE'', np_sqrt (MSELoss predictions data)),
            (''Accuracy'', accuracy_score (binarize th data) (binarize th predictions)),
            (''F1 Score'', f1_score_micro (binarize th data) (binarize th predictions))]"
proof -
  from MSELoss_fin[OF assms(1,2,3)] obtain m where m: "MSELoss predictions data = Fin m" "0 \<le> m"
    by auto
  have l: "length (binarize th data) = length (binarize th predictions)" "binarize th data \<noteq> []"
    using binarize_length[OF assms(1), of th] binarize_length[OF assms(2), of th] assms(3)
    by auto
  from accuracy_fin[OF l] obtain ac where
    ac: "accuracy_score (binarize th data) (binarize th predictions) = Fin ac" by blast
  obtain f where f: "f1_score_micro (binarize th data) (binarize th predictions) = Fin f"
    using f1_fin by blast
  show ?thesis using m ac f by (simp add: finite_record_def)
qed

lemma pinn_records_ok:
  assumes "shape_pinn 9 h pn" "rect n 9 data" "0 < n"
  shows "\<exists>recs w'. pinn_records pn data th ts w = Inr (recs, w') \<and> list_all2 finite_record ts recs"
proof (induction ts arbitrary: w)
  case Nil
  then show ?case by simp
next
  case (Cons t ts)
  have len: "length data = n" using assms(2) by (simp add: rect_def)
  from call_pinn_broadcast[OF assms(1,2), of t w] obtain y w1 where
    y: "call_pinn pn data (T2 (replicate n [t])) w = Inr (y, w1)" "rect n 9 y" by blast
  from Cons.IH[of w1] obtain recs w' where
    r: "pinn_records pn data th ts w1 = Inr (recs, w')" "list_all2 finite_record ts recs" by blast
  show ?case using y r record_finite[OF y(2) assms(2,3), of t th]
    by (simp add: len Let_def)
qed

lemma pinn_records_rmse:
  "pinn_records pn data th ts w = Inr (recs, w') \<Longrightarrow>
     list_all (\<lambda>r. \<exists>m rm. map_of r ''MSE'' = Some m \<and> map_of r ''RMSE'' = Some rm \<and>
                         rmse_is_sqrt_mse m rm) recs"
proof (induction ts arbitrary: w recs w')
  case Nil
  then show ?case by simp
next
  case (Cons t ts)
  then show ?case
    by (auto simp: Let_def rmse_of_MSELoss split: sum.splits prod.splits)
qed

lemma fin_values_map_Fin [simp]: "fin_values (map Fin xs) = Some xs"
  by (induction xs) auto

lemma np_mean_Fin: "xs \<noteq> [] \<Longrightarrow> \<exists>a. np_mean (map Fin xs) = Fin a"
  by (simp add: np_mean_def mean_def)

lemma column_finite:
  assumes "list_all2 finite_record ts recs"
    and "key \<in> {''MSE'', ''RMSE'', ''Accuracy'', ''F1 Score''}"
  shows "\<exists>xs. column key recs = Inr (map Fin xs) \<and> length xs = length recs"
  using assms(1)
proof (induction rule: list_all2_induct)
  case Nil
  then show ?case by simp
next
  case (Cons t ts r recs)
  then obtain xs where xs: "column key recs = Inr (map Fin xs)" "length xs = length recs" by blast
  from Cons(1) obtain x where "getitem r key = Inr (Fin x)"
    using assms(2) by (auto simp: finite_record_def getitem_def)
  then show ?case using xs by (intro exI[of _ "x # xs"]) simp
qed

lemma bind_Inr_iff: "bind_result r f = Inr y \<longleftrightarrow> (\<exists>x. r = Inr x \<and> f x = Inr y)"
  by (cases r) (auto simp: bind_result_def)

lemma no_grad_Inr:
  "no_grad body w = Inr (y, w') \<Longrightarrow>
     \<exists>w1. body (w\<lparr>grad_enabled := False\<rparr>) = Inr (y, w1) \<and> w' = w1\<lparr>grad_enabled := grad_enabled w\<rparr>"
  by (auto simp: no_grad_def bind_Inr_iff)

lemma evaluate_vae_rmse:
  assumes "evaluate_vae v eps data th w = Inr (res, w')"
  shows "\<exists>m rm. map_of res ''MSE'' = Some (Float m) \<and> map_of res ''RMSE'' = Some (Float rm) \<and>
           rmse_is_sqrt_mse m rm"
proof -
  from no_grad_Inr[OF assms[unfolded evaluate_vae_def]] obtain w1 x_hat mu logvar where
    "res = [(''MSE'', Float (MSELoss x_hat data)), (''RMSE'', Float (np_sqrt (MSELoss x_hat data))),
            (''Accuracy'', Float (accuracy_score (binarize th data) (binarize th x_hat))),
            (''F1 Score'', Float (f1_score_micro (binarize th data) (binarize th x_hat))),
            (''Confusion Matrix'', Matrix (confusion_matrix (binarize th data) (binarize th x_hat)))]"
    by (auto simp: bind_Inr_iff Let_def)
  then show ?thesis by (simp add: rmse_of_MSELoss)
qed

lemma evaluate_pinn_rmse:
  assumes "evaluate_pinn pn data tv w = Inr (res, w')"
  shows "\<exists>recs. map_of res ''Detail'' = Some (Records recs) \<and>
           list_all (\<lambda>r. \<exists>m rm. map_of r ''MSE'' = Some m \<and> map_of r ''RMSE'' = Some rm \<and>
                               rmse_is_sqrt_mse m rm) recs"
proof -
  from assms obtain ts recs w1 where
    r: "no_grad (pinn_records pn data 0.5 ts) w = Inr (recs, w1)"
    and d: "map_of res ''Detail'' = Some (Records recs)"
    by (auto simp: evaluate_pinn_def Let_def bind_Inr_iff split: prod.splits)
  from no_grad_Inr[OF r] obtain w2 where
    "pinn_records pn data 0.5 ts (w\<lparr>grad_enabled := False\<rparr>) = Inr (recs, w2)" by blast
  from pinn_records_rmse[OF this] d show ?thesis by blast
qed

lemma evaluate_vae_ok:
  assumes "shape_vae d k v" "rect n d data"
  shows "\<exists>res w'. evaluate_vae v eps data th w = Inr (res, w')"
proof -
  from forward_shape[OF assms, of eps] obtain x_hat mu logvar where
    "GalaxyVAE_forward v eps data = Inr (x_hat, mu, logvar)" by blast
  then show ?thesis by (simp add: evaluate_vae_def no_grad_def Let_def)
qed

lemma evaluate_pinn_ok:
  assumes "shape_pinn 9 h pn" "rect n 9 data" "0 < n" "ts \<noteq> []"
  shows "\<exists>recs a1 a2 a3 a4 cm w'.
           evaluate_pinn pn data (Some ts) w =
             Inr ([(''Detail'', Records recs), (''Average MSE'', Float (Fin a1)),
                   (''Average RMSE'', Float (Fin a2)), (''Average Accuracy'', Float (Fin a3)),
                   (''Average F1 Score'', Float (Fin a4)), (''Mid-t Confusion Matrix'', Matrix cm)],
                  w') \<and>
           list_all2 finite_record ts recs \<and>
           (\<exists>xs. column ''MSE'' recs = Inr xs \<and> np_mean xs = Fin a1) \<and>
           (\<exists>xs. column ''RMSE'' recs = Inr xs \<and> np_mean xs = Fin a2) \<and>
           (\<exists>xs. column ''Accuracy'' recs = Inr xs \<and> np_mean xs = Fin a3) \<and>
           (\<exists>xs. column ''F1 Score'' recs = Inr xs \<and> np_mean xs = Fin a4)"
proof -
  let ?w0 = "w\<lparr>grad_enabled := False\<rparr>"
  have len: "length data = n" using assms(2) by (simp add: rect_def)
  from pinn_records_ok[OF assms(1-3), of "0.5" ts ?w0] obtain recs w1 where
    r: "pinn_records pn data 0.5 ts ?w0 = Inr (recs, w1)" "list_all2 finite_record ts recs"
    by blast
  let ?w1 = "w1\<lparr>grad_enabled := grad_enabled w\<rparr>"
  have ng: "no_grad (pinn_records pn data 0.5 ts) w = Inr (recs, ?w1)"
    using r(1) by (simp add: no_grad_def)
  have ne: "recs \<noteq> []" using r(2) assms(4) by (auto dest: list_all2_lengthD)
  have col: "\<And>key. key \<in> {''MSE'', ''RMSE'', ''Accuracy'', ''F1 Score''} \<Longrightarrow>
                \<exists>xs a. column key recs = Inr xs \<and> np_mean xs = Fin a"
  proof -
    fix key :: string assume k: "key \<in> {''MSE'', ''RMSE'', ''Accuracy'', ''F1 Score''}"
    from column_finite[OF r(2) k] obtain xs where
      xs: "column key recs = Inr (map Fin xs)" "length xs = length recs" by blast
    then have "xs \<noteq> []" using ne by auto
    from np_mean_Fin[OF this] xs(1) show "\<exists>xs a. column key recs = Inr xs \<and> np_mean xs = Fin a"
      by blast
  qed
  from col[of "''MSE''"] obtain x1 a1 where c1: "column ''MSE'' recs = Inr x1" "np_mean x1 = Fin a1"
    by auto
  from col[of "''RMSE''"] obtain x2 a2 where c2: "column ''RMSE'' recs = Inr x2" "np_mean x2 = Fin a2"
    by auto
  from col[of "''Accuracy''"] obtain x3 a3 where
    c3: "column ''Accuracy'' recs = Inr x3" "np_mean x3 = Fin a3" by auto
  from col[of "''F1 Score''"] obtain x4 a4 where
    c4: "column ''F1 Score'' recs = Inr x4" "np_mean x4 = Fin a4" by auto
  have mid: "item_at ts (length ts div 2) = Inr (ts ! (length ts div 2))"
    using assms(4) by (simp add: item_at_def)
  from call_pinn_broadcast[OF assms(1,2), of "ts ! (length ts div 2)" ?w1] obtain y w2 where
    y: "call_pinn pn data (T2 (replicate n [ts ! (length ts div 2)])) ?w1 = Inr (y, w2)" by blast
  show ?thesis
    using ng c1 c2 c3 c4 mid y r(2)
    by (simp add: evaluate_pinn_def len Let_def)
qed

lemma linspace_10: "linspace_values 0 1 10 = map (\<lambda>i. real i / 9) [0..<10]"
  by (simp add: linspace_values_def)

lemma list_all2_map_upt:
  "list_all2 P (map f [0..<k]) ys \<longleftrightarrow> length ys = k \<and> (\<forall>i<k. P (f i) (ys ! i))"
  by (auto simp: list_all2_conv_all_nth)

text \<open>
  Claim C6. For a PINN with the shapes of the default constructor, a non-empty dataset of
  rows of nine features and \<open>t_values = linspace(0, 1, 10)\<close> (passed, or left out),
  \<^verbatim>\<open>evaluate_pinn\<close> returns a dictionary whose \<open>Detail\<close> holds exactly 10 records, the
  \<open>i\<close>-th for the time value \<open>i / 9\<close> with finite numbers under \<open>t\<close>, \<open>MSE\<close>, \<open>RMSE\<close>,
  \<open>Accuracy\<close> and \<open>F1 Score\<close>, and whose four averages are finite numbers, each the
  mean of that metric over the 10 records.
\<close>

theorem evaluate_pinn_ten_records:
  assumes "shape_pinn 9 h pn" "rect n 9 data" "0 < n"
  shows "\<exists>recs a1 a2 a3 a4 cm w'.
           evaluate_pinn pn data (Some (linspace_values 0 1 10)) w =
             Inr ([(''Detail'', Records recs), (''Average MSE'', Float (Fin a1)),
                   (''Average RMSE'', Float (Fin a2)), (''Average Accuracy'', Float (Fin a3)),
                   (''Average F1 Score'', Float (Fin a4)), (''Mid-t Confusion Matrix'', Matrix cm)],
                  w') \<and>
           length recs = 10 \<and> (\<forall>i<10. finite_record (real i / 9) (recs ! i)) \<and>
           (\<exists>xs. column ''MSE'' recs = Inr xs \<and> np_mean xs = Fin a1) \<and>
           (\<exists>xs. column ''RMSE'' recs = Inr xs \<and> np_mean xs = Fin a2) \<and>
           (\<exists>xs. column ''Accuracy'' recs = Inr xs \<and> np_mean xs = Fin a3) \<and>
           (\<exists>xs. column ''F1 Score'' recs = Inr xs \<and> np_mean xs = Fin a4) \<and>
           evaluate_pinn pn data None w = evaluate_pinn pn data (Some (linspace_values 0 1 10)) w"
proof -
  have ne: "linspace_values 0 1 10 \<noteq> []" by (simp add: linspace_10)
  have dflt: "evaluate_pinn pn data None w = evaluate_pinn pn data (Some (linspace_values 0 1 10)) w"
    by (simp add: evaluate_pinn_def linspace_def)
  from evaluate_pinn_ok[OF assms ne, of w] obtain recs a1 a2 a3 a4 cm w' where
    e: "evaluate_pinn pn data (Some (linspace_values 0 1 10)) w =
             Inr ([(''Detail'', Records recs), (''Average MSE'', Float (Fin a1)),
                   (''Average RMSE'', Float (Fin a2)), (''Average Accuracy'', Float (Fin a3)),
                   (''Average F1 Score'', Float (Fin a4)), (''Mid-t Confusion Matrix'', Matrix cm)],
                  w')"
     and l: "list_all2 finite_record (linspace_values 0 1 10) recs"
     and c: "\<exists>xs. column ''MSE'' recs = Inr xs \<and> np_mean xs = Fin a1"
           "\<exists>xs. column ''RMSE'' recs = Inr xs \<and> np_mean xs = Fin a2"
           "\<exists>xs. column ''Accuracy'' recs = Inr xs \<and> np_mean xs = Fin a3"
           "\<exists>xs. column ''F1 Score'' recs = Inr xs \<and> np_mean xs = Fin a4"
    by blast
  from l have "length recs = 10 \<and> (\<forall>i<10. finite_record (real i / 9) (recs ! i))"
    unfolding linspace_10 list_all2_map_upt .
  then show ?thesis using e c dflt by blast
qed

theorem evaluate_pinn_ten_records_witness:
  "shape_pinn 9 32 zero_pinn \<and> rect 1 9 [synthetic_row] \<and> 0 < (1 :: nat) \<and>
   (\<exists>recs a1 a2 a3 a4 cm w'.
      evaluate_pinn zero_pinn [synthetic_row] (Some (linspace_values 0 1 10)) empty_world =
        Inr ([(''Detail'', Records recs), (''Average MSE'', Float (Fin a1)),
              (''Average RMSE'', Float (Fin a2)), (''Average Accuracy'', Float (Fin a3)),
              (''Average F1 Score'', Float (Fin a4)), (''Mid-t Confusion Matrix'', Matrix cm)],
             w') \<and>
      length recs = 10 \<and> finite_record 0 (recs ! 0) \<and> finite_record 1 (recs ! 9))"
proof -
  have sh: "shape_pinn 9 32 zero_pinn" "rect 1 9 [synthetic_row]" "0 < (1 :: nat)"
    by (simp_all add: rect_def synthetic_row_def)
  from evaluate_pinn_ten_records[OF sh, of empty_world] obtain recs a1 a2 a3 a4 cm w' where
    e: "evaluate_pinn zero_pinn [synthetic_row] (Some (linspace_values 0 1 10)) empty_world =
        Inr ([(''Detail'', Records recs), (''Average MSE'', Float (Fin a1)),
              (''Average RMSE'', Float (Fin a2)), (''Average Accuracy'', Float (Fin a3)),
              (''Average F1 Score'', Float (Fin a4)), (''Mid-t Confusion Matrix'', Matrix cm)],
             w')"
      "length recs = 10" "\<forall>i<10. finite_record (real i / 9) (recs ! i)"
    by blast
  have "(0 :: nat) < 10" "(9 :: nat) < 10" by simp_all
  with e(3) have "finite_record (real 0 / 9) (recs ! 0)" "finite_record (real 9 / 9) (recs ! 9)"
    by blast+
  then have "finite_record 0 (recs ! 0)" "finite_record 1 (recs ! 9)" by simp_all
  then show ?thesis using sh e(1,2) by blast
qed

text \<open>
  Claim C10. In the record that \<^verbatim>\<open>evaluate_vae\<close> returns and in every per-time record
  that \<^verbatim>\<open>evaluate_pinn\<close> returns, the value under \<open>RMSE\<close> is the square root of the
  value under \<open>MSE\<close> of the same record.
\<close>

theorem rmse_is_square_root_of_mse:
  "(evaluate_vae v eps data th w = Inr (res, w') \<longrightarrow>
      (\<exists>m rm. map_of res ''MSE'' = Some (Float m) \<and> map_of res ''RMSE'' = Some (Float rm) \<and>
         rmse_is_sqrt_mse m rm)) \<and>
   (evaluate_pinn pn data2 tv w2 = Inr (res2, w2') \<longrightarrow>
      (\<exists>recs. map_of res2 ''Detail'' = Some (Records recs) \<and>
         list_all (\<lambda>r. \<exists>m rm. map_of r ''MSE'' = Some m \<and> map_of r ''RMSE'' = Some rm \<and>
                             rmse_is_sqrt_mse m rm) recs))"
  using evaluate_vae_rmse[of v eps data th w res w'] evaluate_pinn_rmse[of pn data2 tv w2 res2 w2']
  by blast

theorem rmse_is_square_root_of_mse_witness:
  "\<exists>res w' m rm res2 w2' recs.
     evaluate_vae zero_vae (\<lambda>i j. 0) [synthetic_row] 0.5 empty_world = Inr (res, w') \<and>
     map_of res ''MSE'' = Some (Float m) \<and> map_of res ''RMSE'' = Some (Float rm) \<and>
     rmse_is_sqrt_mse m rm \<and>
     evaluate_pinn zero_pinn [synthetic_row] None empty_world = Inr (res2, w2') \<and>
     map_of res2 ''Detail'' = Some (Records recs) \<and> length recs = 10 \<and>
     list_all (\<lambda>r. \<exists>m rm. map_of r ''MSE'' = Some m \<and> map_of r ''RMSE'' = Some rm \<and>
                         rmse_is_sqrt_mse m rm) recs"
proof -
  have sv: "shape_vae 9 3 zero_vae" "rect 1 9 [synthetic_row]"
    by (simp_all add: rect_def synthetic_row_def)
  have sp: "shape_pinn 9 32 zero_pinn" "rect 1 9 [synthetic_row]" "0 < (1 :: nat)"
    "linspace_values 0 1 10 \<noteq> []"
    by (simp_all add: rect_def synthetic_row_def linspace_10)
  from evaluate_vae_ok[OF sv, of "\<lambda>i j. 0" "0.5" empty_world] obtain res w' where
    a: "evaluate_vae zero_vae (\<lambda>i j. 0) [synthetic_row] 0.5 empty_world = Inr (res, w')" by blast
  from evaluate_pinn_ok[OF sp, of empty_world] obtain recs0 a1 a2 a3 a4 cm w2' where
    b: "evaluate_pinn zero_pinn [synthetic_row] (Some (linspace_values 0 1 10)) empty_world =
          Inr ([(''Detail'', Records recs0), (''Average MSE'', Float (Fin a1)),
                (''Average RMSE'', Float (Fin a2)), (''Average Accuracy'', Float (Fin a3)),
                (''Average F1 Score'', Float (Fin a4)), (''Mid-t Confusion Matrix'', Matrix cm)],
               w2')"
       "list_all2 finite_record (linspace_values 0 1 10) recs0"
    by blast
  let ?res2 = "[(''Detail'', Records recs0), (''Average MSE'', Float (Fin a1)),
                (''Average RMSE'', Float (Fin a2)), (''Average Accuracy'', Float (Fin a3)),
                (''Average F1 Score'', Float (Fin a4)), (''Mid-t Confusion Matrix'', Matrix cm)]"
  have b': "evaluate_pinn zero_pinn [synthetic_row] None empty_world = Inr (?res2, w2')"
    using b(1) by (simp add: evaluate_pinn_def linspace_def)
  have l: "length recs0 = 10" using list_all2_lengthD[OF b(2)] by (simp add: linspace_10)
  from rmse_is_square_root_of_mse[of zero_vae "\<lambda>i j. 0" "[synthetic_row]" "0.5" empty_world res w'
      zero_pinn "[synthetic_row]" None empty_world ?res2 w2'] a b'
  obtain m rm recs where
    c: "map_of res ''MSE'' = Some (Float m)" "map_of res ''RMSE'' = Some (Float rm)"
       "rmse_is_sqrt_mse m rm" "map_of ?res2 ''Detail'' = Some (Records recs)"
       "list_all (\<lambda>r. \<exists>m rm. map_of r ''MSE'' = Some m \<and> map_of r ''RMSE'' = Some rm \<and>
                           rmse_is_sqrt_mse m rm) recs"
    by blast
  from c(4) have "recs = recs0" by simp
  then show ?thesis using a b' c l by blast
qed

end
